theory Spec2Isabelle
  imports Complex_Main
begin

section \<open>Tensors\<close>

text \<open>
  The two acquisition functions of \<^verbatim>\<open>tutorials/custom_acquisition.ipynb\<close> are
  written against torch tensors. A tensor is modelled by its dtype, its device, its
  shape and its elements in row-major order. Elements are real numbers: rounding and
  overflow of the arithmetic operators are outside the model, and so are the errors
  torch raises when the operands of an operator differ in dtype or device (the result
  of an operator carries the dtype and device of its first tensor operand; the theorems
  about a value that an operator returns take its operands of one dtype and on one
  device). The
  conversion of an element to another dtype rounds; it is a parameter of the model, and
  nothing is assumed of it. The one non-real value the two functions can produce from
  real inputs, NaN, is a value of its own (\<open>tnum\<close>): the square root of a negative
  number and the mean of no numbers.
\<close>

datatype dtype = Float16 | Float32 | Float64

datatype device = CPU | CUDA nat

datatype error = RuntimeError | ValueError | IndexError | NameError

datatype tnum = Fin real | NaN

record 'a tensor =
  dtype :: dtype
  device :: device
  shape :: "nat list"
  data :: "'a list"

text \<open>Exceptions are values: \<open>Inl e\<close> is a raised error, and \<open>ebind\<close> runs the next
  statement only when the previous one returned.\<close>

definition ebind :: "error + 'a \<Rightarrow> ('a \<Rightarrow> error + 'b) \<Rightarrow> error + 'b" where
  "ebind m f = (case m of Inl e \<Rightarrow> Inl e | Inr x \<Rightarrow> f x)"

definition numel :: "nat list \<Rightarrow> nat" where
  "numel s = prod_list s"

text \<open>The \<open>i\<close>-th row of length \<open>k\<close> of row-major data, and the dot product.\<close>

definition row :: "nat \<Rightarrow> 'a list \<Rightarrow> nat \<Rightarrow> 'a list" where
  "row k xs i = take k (drop (i * k) xs)"

definition dot :: "real list \<Rightarrow> real list \<Rightarrow> real" where
  "dot xs ys = sum_list (map2 (*) xs ys)"

text \<open>\<^verbatim>\<open>t.to(X)\<close>: \<open>t\<close> with the dtype and device of \<open>X\<close>. When the dtype changes, every
  element is converted to the new dtype by \<open>c\<close>, torch's rounding conversion; when it
  does not, the elements are kept (and with the device also unchanged, \<^verbatim>\<open>to\<close> returns
  \<open>t\<close> itself).\<close>

definition tensor_to :: "(dtype \<Rightarrow> real \<Rightarrow> real) \<Rightarrow> real tensor \<Rightarrow> 'b tensor \<Rightarrow> real tensor" where
  "tensor_to c t X =
     t\<lparr>dtype := dtype X, device := device X,
       data := (if dtype X = dtype t then data t else map (c (dtype X)) (data t))\<rparr>"

text \<open>\<^verbatim>\<open>t.squeeze(dim=d)\<close>: dimension \<open>d\<close> (negative: from the end) is removed when its
  size is 1, and the tensor is returned as it is otherwise; a dimension out of range
  raises IndexError.\<close>

definition squeeze :: "'a tensor \<Rightarrow> int \<Rightarrow> error + 'a tensor" where
  "squeeze t d =
     (let n = length (shape t); r = int (max n 1) in
      if d < - r \<or> r \<le> d then Inl IndexError
      else let i = nat (if d < 0 then d + int n else d) in
        if i < n \<and> shape t ! i = 1
        then Inr (t\<lparr>shape := take i (shape t) @ drop (Suc i) (shape t)\<rparr>)
        else Inr t)"

text \<open>\<^verbatim>\<open>a.matmul(w)\<close> with a one-dimensional right operand \<open>w\<close>: the product of every
  row of \<open>a\<close> (along its last dimension) with \<open>w\<close>; the last dimension of \<open>a\<close> must have
  the length of \<open>w\<close>. Both uses in the source have the weights buffer as right operand,
  a vector of one weight per outcome; the matrix products that torch computes for a
  right operand of two or more dimensions are not modelled (such an operand is
  refused here), and every theorem below assumes a one-dimensional weights buffer.\<close>

definition matmul :: "real tensor \<Rightarrow> real tensor \<Rightarrow> error + real tensor" where
  "matmul a w =
     (if length (shape w) = 1 \<and> shape a \<noteq> [] \<and> last (shape a) = hd (shape w)
      then Inr (a\<lparr>shape := butlast (shape a),
                  data := map (\<lambda>i. dot (row (hd (shape w)) (data a) i) (data w))
                            [0..<numel (butlast (shape a))]\<rparr>)
      else Inl RuntimeError)"

text \<open>\<^verbatim>\<open>t.view(*sz)\<close>: the same elements under a new shape with the same number of
  elements; one size may be \<open>-1\<close> and is then inferred.\<close>

definition view :: "'a tensor \<Rightarrow> int list \<Rightarrow> error + 'a tensor" where
  "view t sz =
     (let n = numel (shape t);
          known = prod_list (map nat (filter (\<lambda>d. d \<noteq> - 1) sz)) in
      if list_ex (\<lambda>d. d < - 1) sz \<or> 1 < length (filter (\<lambda>d. d = - 1) sz)
      then Inl RuntimeError
      else if list_ex (\<lambda>d. d = - 1) sz then
        (if known \<noteq> 0 \<and> n mod known = 0
         then Inr (t\<lparr>shape := map (\<lambda>d. if d = - 1 then n div known else nat d) sz\<rparr>)
         else Inl RuntimeError)
      else if known = n then Inr (t\<lparr>shape := map nat sz\<rparr>)
      else Inl RuntimeError)"

text \<open>\<^verbatim>\<open>t.expand(*sz)\<close>: dimensions of size 1 are repeated to the requested size, new
  leading dimensions may be added, every other dimension must keep its size.
  \<open>expand_data s sz xs\<close> expands data of shape \<open>s\<close> to the shape \<open>sz\<close> of the same
  rank.\<close>

fun expandable :: "nat list \<Rightarrow> nat list \<Rightarrow> bool" where
  "expandable [] [] = True"
| "expandable (s # ss) (n # ns) = ((s = n \<or> s = 1) \<and> expandable ss ns)"
| "expandable _ _ = False"

fun expand_data :: "nat list \<Rightarrow> nat list \<Rightarrow> 'a list \<Rightarrow> 'a list" where
  "expand_data (s # ss) (n # ns) xs =
     (if s = n
      then concat (map (\<lambda>i. expand_data ss ns (row (numel ss) xs i)) [0..<n])
      else concat (replicate n (expand_data ss ns xs)))"
| "expand_data _ _ xs = xs"

definition pad :: "nat \<Rightarrow> nat list \<Rightarrow> nat list" where
  "pad r s = replicate (r - length s) 1 @ s"

definition expand :: "'a tensor \<Rightarrow> nat list \<Rightarrow> error + 'a tensor" where
  "expand t sz =
     (if length (shape t) \<le> length sz \<and> expandable (pad (length sz) (shape t)) sz
      then Inr (t\<lparr>shape := sz,
                  data := expand_data (pad (length sz) (shape t)) sz (data t)\<rparr>)
      else Inl RuntimeError)"

definition expand_as :: "'a tensor \<Rightarrow> 'b tensor \<Rightarrow> error + 'a tensor" where
  "expand_as t other = expand t (shape other)"

text \<open>\<^verbatim>\<open>t.permute(*dims)\<close>: \<open>dims\<close> must be a permutation of the dimensions of \<open>t\<close>;
  dimension \<open>k\<close> of the result is dimension \<open>dims ! k\<close> of \<open>t\<close>. \<open>strides s\<close> are the
  row-major strides of shape \<open>s\<close>.\<close>

definition strides :: "nat list \<Rightarrow> nat list" where
  "strides s = map (\<lambda>k. numel (drop (Suc k) s)) [0..<length s]"

definition permute :: "'a tensor \<Rightarrow> nat list \<Rightarrow> error + 'a tensor" where
  "permute t dims =
     (let s = shape t; r = length s in
      if length dims = r \<and> list_all (\<lambda>k. k \<in> set dims) [0..<r]
      then let s' = map (\<lambda>k. s ! k) dims in
        Inr (t\<lparr>shape := s',
               data := map (\<lambda>idx. data t !
                          (\<Sum>k\<leftarrow>[0..<r]. ((idx div (strides s' ! k)) mod (s' ! k))
                                            * (strides s ! (dims ! k))))
                        [0..<numel s']\<rparr>)
      else Inl RuntimeError)"

text \<open>\<^verbatim>\<open>torch.bmm(a, c)\<close>: the batch of matrix products of \<open>a\<close> (\<open>b \<times> n \<times> m\<close>) and
  \<open>c\<close> (\<open>b \<times> m \<times> p\<close>); any other pair of shapes raises.\<close>

definition bmm :: "real tensor \<Rightarrow> real tensor \<Rightarrow> error + real tensor" where
  "bmm a c =
     (if length (shape a) = 3 \<and> length (shape c) = 3
         \<and> shape a ! 0 = shape c ! 0 \<and> shape a ! 2 = shape c ! 1
      then let b = shape a ! 0; n = shape a ! 1; m = shape a ! 2; p = shape c ! 2 in
        Inr (a\<lparr>shape := [b, n, p],
               data := map (\<lambda>idx.
                          let t = idx div (n * p); i = (idx div p) mod n; j = idx mod p in
                          (\<Sum>k\<leftarrow>[0..<m]. data a ! (t * n * m + i * m + k)
                                          * data c ! (t * m * p + k * p + j)))
                        [0..<b * n * p]\<rparr>)
      else Inl RuntimeError)"

text \<open>An elementwise binary operator with broadcasting: the shapes are aligned at the
  right, a dimension of size 1 is repeated, and any other difference raises.\<close>

fun bdims :: "nat list \<Rightarrow> nat list \<Rightarrow> nat list option" where
  "bdims [] [] = Some []"
| "bdims (x # xs) (y # ys) =
     (if x = y \<or> y = 1 then map_option ((#) x) (bdims xs ys)
      else if x = 1 then map_option ((#) y) (bdims xs ys)
      else None)"
| "bdims _ _ = None"

definition broadcast_shapes :: "nat list \<Rightarrow> nat list \<Rightarrow> nat list option" where
  "broadcast_shapes s1 s2 =
     (let r = max (length s1) (length s2) in bdims (pad r s1) (pad r s2))"

definition binop :: "('a \<Rightarrow> 'b \<Rightarrow> 'c) \<Rightarrow> 'a tensor \<Rightarrow> 'b tensor \<Rightarrow> error + 'c tensor" where
  "binop f a c =
     (case broadcast_shapes (shape a) (shape c) of
        None \<Rightarrow> Inl RuntimeError
      | Some s \<Rightarrow>
          Inr \<lparr>dtype = dtype a, device = device a, shape = s,
               data = map2 f (expand_data (pad (length s) (shape a)) s (data a))
                             (expand_data (pad (length s) (shape c)) s (data c))\<rparr>)"

text \<open>\<^verbatim>\<open>t.sqrt()\<close>: elementwise; the square root of a negative number is NaN (torch
  raises nothing). Sums and differences with NaN are NaN.\<close>

definition tsqrt :: "real \<Rightarrow> tnum" where
  "tsqrt x = (if x < 0 then NaN else Fin (sqrt x))"

fun tadd :: "tnum \<Rightarrow> tnum \<Rightarrow> tnum" where
  "tadd (Fin x) (Fin y) = Fin (x + y)"
| "tadd _ _ = NaN"

fun tsub :: "tnum \<Rightarrow> tnum \<Rightarrow> tnum" where
  "tsub (Fin x) (Fin y) = Fin (x - y)"
| "tsub _ _ = NaN"

definition tensor_sqrt :: "real tensor \<Rightarrow> tnum tensor" where
  "tensor_sqrt t =
     \<lparr>dtype = dtype t, device = device t, shape = shape t, data = map tsqrt (data t)\<rparr>"

section \<open>The collaborators\<close>

text \<open>
  The model and its posterior are not defined in the notebook: \<^verbatim>\<open>model.posterior(X)\<close>
  is a parameter of the embedding, a function from the candidate tensor to a posterior
  with a mean tensor and a covariance tensor. A call of \<^verbatim>\<open>forward\<close> has an outcome:
  what it returned or raised, the instance after the call, and the calls it made to the
  collaborators, in the order in which it made them.
\<close>

record Posterior =
  mean :: "real tensor"
  covariance_matrix :: "real tensor"

record Model =
  posterior :: "real tensor \<Rightarrow> Posterior"

datatype call = Call_posterior | Call_sampler

record ('s, 'a) outcome =
  returned :: "error + 'a"
  state :: 's
  calls :: "call list"

section \<open>The names of the notebook\<close>

text \<open>
  A global name in a function body is looked up when its statement runs, in the namespace
  of the notebook, and a name that is not bound there raises NameError. The two code
  cells bind the names of their import statements (lines 32-37 and 92-96) and of the two
  classes. Neither cell imports the module \<^verbatim>\<open>torch\<close>, which line 136 names
  (\<^verbatim>\<open>from torch import Tensor\<close> binds \<^verbatim>\<open>Tensor\<close> only), or the module \<^verbatim>\<open>math\<close>, which
  line 71 names. The runtime of a call is the namespace together with the conversion of
  an element to a dtype; \<open>notebook c\<close> is the namespace of the notebook as it is written,
  with the conversion \<open>c\<close>.
\<close>

record runtime =
  names :: "string set"
  convert :: "dtype \<Rightarrow> real \<Rightarrow> real"

definition notebook_names :: "string set" where
  "notebook_names =
     {''MCSampler'', ''MCAcquisitionObjective'', ''MCAcquisitionFunction'', ''Model'',
      ''t_batch_mode_transform'', ''Tensor'', ''Optional'',
      ''qScalarizedUpperConfidenceBound'',
      ''AnalyticAcquisitionFunction'', ''q_batch_mode_transform'',
      ''ScalarizedUpperConfidenceBound''}"

definition notebook :: "(dtype \<Rightarrow> real \<Rightarrow> real) \<Rightarrow> runtime" where
  "notebook c = \<lparr>names = notebook_names, convert = c\<rparr>"

definition lookup :: "runtime \<Rightarrow> string \<Rightarrow> error + unit" where
  "lookup env name = (if name \<in> names env then Inr () else Inl NameError)"

section \<open>The analytic scorer\<close>

text \<open>The instance: the model, the flag and the two registered buffers.\<close>

record ScalarizedUpperConfidenceBound =
  model :: Model
  maximize :: bool
  beta :: "real tensor"
  weights :: "real tensor"

text \<open>Lines 128-129: \<^verbatim>\<open>means = posterior.mean.squeeze(dim=-2)\<close>,
  \<^verbatim>\<open>scalarized_mean = means.matmul(self.weights)\<close>.\<close>

definition scalarized_mean :: "real tensor \<Rightarrow> Posterior \<Rightarrow> error + real tensor" where
  "scalarized_mean w post =
     ebind (squeeze (mean post) (- 2)) (\<lambda>means. matmul means w)"

text \<open>Lines 130-138: the weights are viewed as \<open>1 \<times> o \<times> 1\<close>, expanded to
  \<open>b \<times> o \<times> 1\<close> and permuted to \<open>b \<times> 1 \<times> o\<close>; then line 136 looks the name
  \<^verbatim>\<open>torch\<close> up, and the two batched products give the quadratic form, viewed under the
  batch shape.\<close>

definition scalarized_variance ::
  "runtime \<Rightarrow> real tensor \<Rightarrow> nat list \<Rightarrow> Posterior \<Rightarrow> error + real tensor" where
  "scalarized_variance env w batch_shape post =
     (let covs = covariance_matrix post in
      ebind (view w [1, - 1, 1]) (\<lambda>weights1.
      ebind (expand weights1 (batch_shape @ tl (shape weights1))) (\<lambda>weights2.
      ebind (permute weights2 [0, 2, 1]) (\<lambda>weights_transpose.
      ebind (lookup env ''torch'') (\<lambda>_.
      ebind (bmm covs weights2) (\<lambda>cw.
      ebind (bmm weights_transpose cw) (\<lambda>wcw.
      view wcw (map int batch_shape))))))))"

text \<open>Line 139:
  \<^verbatim>\<open>delta = (self.beta.expand_as(scalarized_mean) * scalarized_variance).sqrt()\<close>.\<close>

definition delta :: "real tensor \<Rightarrow> real tensor \<Rightarrow> real tensor \<Rightarrow> error + tnum tensor" where
  "delta be sm sv =
     ebind (expand_as be sm) (\<lambda>bx.
     ebind (binop (*) bx sv) (\<lambda>bv.
     Inr (tensor_sqrt bv)))"

text \<open>The body of \<^verbatim>\<open>ScalarizedUpperConfidenceBound.forward\<close> (lines 125-143), on the
  tensor \<open>X\<close> that the two decorators hand to it (\<open>b \<times> 1 \<times> d\<close>; the decorators
  themselves are not part of the notebook). The assignment to \<^verbatim>\<open>self.beta\<close> of line 125
  is the new state, also when a later statement raises.\<close>

definition forward ::
  "runtime \<Rightarrow> ScalarizedUpperConfidenceBound \<Rightarrow> real tensor
     \<Rightarrow> (ScalarizedUpperConfidenceBound, tnum tensor) outcome" where
  "forward env self X =
     (let self' = self\<lparr>beta := tensor_to (convert env) (beta self) X\<rparr>;
          batch_shape = take (length (shape X) - 2) (shape X);
          post = posterior (model self') X
      in \<lparr>returned =
            ebind (scalarized_mean (weights self') post) (\<lambda>sm.
            ebind (scalarized_variance env (weights self') batch_shape post) (\<lambda>sv.
            ebind (delta (beta self') sm sv) (\<lambda>d.
            if maximize self'
            then binop (\<lambda>m x. tadd (Fin m) x) sm d
            else binop (\<lambda>m x. tsub (Fin m) x) sm d))),
          state = self',
          calls = [Call_posterior]\<rparr>)"

section \<open>The Monte-Carlo scorer\<close>

text \<open>
  The instance of \<^verbatim>\<open>qScalarizedUpperConfidenceBound\<close>: the model, the sampler and the
  two registered buffers (the objective that the constructor passes on is not used by
  \<^verbatim>\<open>forward\<close>). The sampler is a parameter: a function from the posterior to the
  tensor of draws (\<open>n \<times> b \<times> q \<times> o\<close>). The fields carry the prefix \<open>q\<close> of the class
  name, since a field name is a constant of the theory.
\<close>

record qScalarizedUpperConfidenceBound =
  qmodel :: Model
  qsampler :: "Posterior \<Rightarrow> real tensor"
  qbeta :: "real tensor"
  qweights :: "real tensor"

text \<open>\<^verbatim>\<open>t * c\<close>, \<^verbatim>\<open>c * t\<close> and \<^verbatim>\<open>t / c\<close> for a Python number \<open>c\<close>, and \<^verbatim>\<open>t.abs()\<close>.\<close>

definition tensor_mul :: "real tensor \<Rightarrow> real \<Rightarrow> real tensor" where
  "tensor_mul t c = t\<lparr>data := map (\<lambda>x. x * c) (data t)\<rparr>"

definition tensor_rmul :: "real \<Rightarrow> real tensor \<Rightarrow> real tensor" where
  "tensor_rmul c t = t\<lparr>data := map (\<lambda>x. c * x) (data t)\<rparr>"

definition tensor_div :: "real tensor \<Rightarrow> real \<Rightarrow> real tensor" where
  "tensor_div t c = t\<lparr>data := map (\<lambda>x. x / c) (data t)\<rparr>"

definition tensor_abs :: "real tensor \<Rightarrow> real tensor" where
  "tensor_abs t = t\<lparr>data := map abs (data t)\<rparr>"

text \<open>\<^verbatim>\<open>math.sqrt(t)\<close> on a tensor: the tensor is converted to a Python float, which
  raises unless it has exactly one element, and \<^verbatim>\<open>math.sqrt\<close> raises ValueError (math
  domain error) on a negative number.\<close>

definition math_sqrt :: "real tensor \<Rightarrow> error + real" where
  "math_sqrt t =
     (if numel (shape t) = 1 \<and> length (data t) = 1
      then (if hd (data t) < 0 then Inl ValueError else Inr (sqrt (hd (data t))))
      else Inl ValueError)"

text \<open>\<^verbatim>\<open>t.max(dim=-1)[0]\<close>: the maximum along the last dimension, which must not be
  empty.\<close>

fun maximum :: "real list \<Rightarrow> real" where
  "maximum [] = 0"
| "maximum [x] = x"
| "maximum (x # y # ys) = max x (maximum (y # ys))"

definition max_last :: "real tensor \<Rightarrow> error + real tensor" where
  "max_last t =
     (if shape t = [] then Inr t
      else if last (shape t) = 0 then Inl RuntimeError
      else Inr (t\<lparr>shape := butlast (shape t),
                  data := map (\<lambda>i. maximum (row (last (shape t)) (data t) i))
                            [0..<numel (butlast (shape t))]\<rparr>))"

text \<open>\<^verbatim>\<open>t.mean(dim=0)\<close>: the arithmetic mean along the first dimension; the mean of no
  numbers is NaN.\<close>

definition mean_dim0 :: "real tensor \<Rightarrow> tnum tensor" where
  "mean_dim0 t =
     (case shape t of
        [] \<Rightarrow> \<lparr>dtype = dtype t, device = device t, shape = [], data = map Fin (data t)\<rparr>
      | n # rest \<Rightarrow>
          \<lparr>dtype = dtype t, device = device t, shape = rest,
           data = map (\<lambda>j. if n = 0 then NaN
                            else Fin ((\<Sum>i\<leftarrow>[0..<n]. data t ! (i * numel rest + j)) / real n))
                      [0..<numel rest]\<rparr>)"

text \<open>The body of \<^verbatim>\<open>qScalarizedUpperConfidenceBound.forward\<close> (lines 64-74). The operands
  of lines 69-73 are evaluated from left to right: the name \<^verbatim>\<open>math\<close> is looked up for
  \<^verbatim>\<open>math.sqrt\<close> first, then come the argument of the square root, the difference, its
  absolute value, the product and the sum. Nothing is assigned to \<^verbatim>\<open>self\<close>.\<close>

definition q_forward ::
  "runtime \<Rightarrow> qScalarizedUpperConfidenceBound \<Rightarrow> real tensor
     \<Rightarrow> (qScalarizedUpperConfidenceBound, tnum tensor) outcome" where
  "q_forward env self X =
     (let post = posterior (qmodel self) X;
          samples = qsampler self post
      in \<lparr>returned =
            ebind (matmul samples (qweights self)) (\<lambda>scalarized_samples.
            ebind (matmul (mean post) (qweights self)) (\<lambda>sm.
            ebind (lookup env ''math'') (\<lambda>_.
            ebind (math_sqrt (tensor_div (tensor_mul (qbeta self) pi) 2)) (\<lambda>c.
            ebind (binop (-) scalarized_samples sm) (\<lambda>diff.
            ebind (binop (+) sm (tensor_rmul c (tensor_abs diff))) (\<lambda>ucb_samples.
            ebind (max_last ucb_samples) (\<lambda>best.
            Inr (mean_dim0 best)))))))),
          state = self,
          calls = [Call_posterior, Call_sampler]\<rparr>)"

section \<open>The quantities the claims speak of\<close>

text \<open>
  For t-batch \<open>t\<close> of a posterior over \<open>k\<close> outcomes: the mean vector, the entry
  \<open>(i, j)\<close> of the covariance matrix, and the exploration parameter (one element for
  all t-batches, or one per t-batch).
\<close>

definition mean_of :: "Posterior \<Rightarrow> nat \<Rightarrow> nat \<Rightarrow> real list" where
  "mean_of post k t = row k (data (mean post)) t"

definition cov_of :: "Posterior \<Rightarrow> nat \<Rightarrow> nat \<Rightarrow> nat \<Rightarrow> nat \<Rightarrow> real" where
  "cov_of post k t i j = data (covariance_matrix post) ! (t * k * k + i * k + j)"

definition beta_of :: "real tensor \<Rightarrow> nat \<Rightarrow> real" where
  "beta_of be t = (if length (data be) = 1 then data be ! 0 else data be ! t)"

text \<open>The scalarization \<open>w \<cdot> \<mu>\<close> and the quadratic form \<open>w\<^sup>T \<Sigma> w\<close>.\<close>

definition wdot :: "real list \<Rightarrow> real list \<Rightarrow> real" where
  "wdot w mu = (\<Sum>i<length w. w ! i * mu ! i)"

definition quad_form :: "real list \<Rightarrow> (nat \<Rightarrow> nat \<Rightarrow> real) \<Rightarrow> real" where
  "quad_form w C = (\<Sum>i<length w. \<Sum>j<length w. w ! i * C i j * w ! j)"

text \<open>The analytic score as section 4.1 of the specification computes it, with the
  square root of the tensor library.\<close>

definition analytic_score :: "real list \<Rightarrow> real list \<Rightarrow> (nat \<Rightarrow> nat \<Rightarrow> real) \<Rightarrow> real \<Rightarrow> bool \<Rightarrow> tnum" where
  "analytic_score w mu C be mx =
     (let m = wdot w mu; v = quad_form w C; delta = tsqrt (be * v)
      in if mx then tadd (Fin m) delta else tsub (Fin m) delta)"

text \<open>The inputs of the analytic scorer: \<open>b\<close> t-batches (one batch dimension, as the
  comment of line 133 assumes) of one point of dimension \<open>d\<close>, \<open>k\<close> outcomes, a vector of
  \<open>k\<close> weights, and a beta buffer that expands to the batch shape: one element, or one
  per t-batch. The weights and the two tensors of the posterior have the dtype and the
  device of \<open>X\<close>, to which line 125 converts beta.\<close>

definition analytic_inputs ::
  "ScalarizedUpperConfidenceBound \<Rightarrow> real tensor \<Rightarrow> nat \<Rightarrow> nat \<Rightarrow> nat \<Rightarrow> bool" where
  "analytic_inputs self X b d k \<longleftrightarrow>
     shape X = [b, 1, d]
     \<and> shape (weights self) = [k] \<and> length (data (weights self)) = k
     \<and> shape (mean (posterior (model self) X)) = [b, 1, k]
     \<and> length (data (mean (posterior (model self) X))) = b * k
     \<and> shape (covariance_matrix (posterior (model self) X)) = [b, k, k]
     \<and> length (data (covariance_matrix (posterior (model self) X))) = b * k * k
     \<and> (shape (beta self) = [] \<or> shape (beta self) = [1] \<or> shape (beta self) = [b])
     \<and> length (data (beta self)) = numel (shape (beta self))
     \<and> dtype (weights self) = dtype X \<and> device (weights self) = device X
     \<and> dtype (mean (posterior (model self) X)) = dtype X
     \<and> device (mean (posterior (model self) X)) = device X
     \<and> dtype (covariance_matrix (posterior (model self) X)) = dtype X
     \<and> device (covariance_matrix (posterior (model self) X)) = device X"

text \<open>The Monte-Carlo quantities of section 4.2: the scalarized mean of point \<open>j\<close> of
  t-batch \<open>t\<close>, the scalarized draw \<open>i\<close> at that point, the deviation term of step 3,
  and the mean over the draws of the maximum over the points.\<close>

definition smean :: "real list \<Rightarrow> Posterior \<Rightarrow> nat \<Rightarrow> nat \<Rightarrow> nat \<Rightarrow> real" where
  "smean w post q t j = wdot w (row (length w) (data (mean post)) (t * q + j))"

definition ssample :: "real list \<Rightarrow> real tensor \<Rightarrow> nat \<Rightarrow> nat \<Rightarrow> nat \<Rightarrow> nat \<Rightarrow> nat \<Rightarrow> real" where
  "ssample w S b q i t j = wdot w (row (length w) (data S) ((i * b + t) * q + j))"

definition mc_ucb ::
  "real list \<Rightarrow> real \<Rightarrow> Posterior \<Rightarrow> real tensor \<Rightarrow> nat \<Rightarrow> nat \<Rightarrow> nat \<Rightarrow> nat \<Rightarrow> nat \<Rightarrow> real" where
  "mc_ucb w be post S b q i t j =
     smean w post q t j + sqrt (be * pi / 2) * \<bar>ssample w S b q i t j - smean w post q t j\<bar>"

definition mc_score ::
  "real list \<Rightarrow> real \<Rightarrow> Posterior \<Rightarrow> real tensor \<Rightarrow> nat \<Rightarrow> nat \<Rightarrow> nat \<Rightarrow> nat \<Rightarrow> real" where
  "mc_score w be post S n b q t =
     (\<Sum>i<n. Max ((\<lambda>j. mc_ucb w be post S b q i t j) ` {..<q})) / real n"

text \<open>The inputs of the Monte-Carlo scorer: \<open>n\<close> draws (at least one) of \<open>b\<close> t-batches
  of \<open>q\<close> points (at least one) with \<open>k\<close> outcomes, and a beta buffer of one
  non-negative element. The draws, the posterior mean and the weights are of one dtype
  and on one device.\<close>

definition mc_inputs ::
  "qScalarizedUpperConfidenceBound \<Rightarrow> real tensor \<Rightarrow> nat \<Rightarrow> nat \<Rightarrow> nat \<Rightarrow> nat \<Rightarrow> bool" where
  "mc_inputs self X n b q k \<longleftrightarrow>
     shape (qweights self) = [k] \<and> length (data (qweights self)) = k
     \<and> shape (mean (posterior (qmodel self) X)) = [b, q, k]
     \<and> length (data (mean (posterior (qmodel self) X))) = b * q * k
     \<and> shape (qsampler self (posterior (qmodel self) X)) = [n, b, q, k]
     \<and> length (data (qsampler self (posterior (qmodel self) X))) = n * b * q * k
     \<and> numel (shape (qbeta self)) = 1 \<and> length (data (qbeta self)) = 1
     \<and> 0 \<le> hd (data (qbeta self))
     \<and> 0 < n \<and> 0 < q
     \<and> dtype (mean (posterior (qmodel self) X)) = dtype (qweights self)
     \<and> device (mean (posterior (qmodel self) X)) = device (qweights self)
     \<and> dtype (qsampler self (posterior (qmodel self) X)) = dtype (qweights self)
     \<and> device (qsampler self (posterior (qmodel self) X)) = device (qweights self)"

text \<open>The one-hot weight vector \<open>e\<^sub>i\<close> of length \<open>k\<close>.\<close>

definition one_hot :: "nat \<Rightarrow> nat \<Rightarrow> real list" where
  "one_hot k i = (replicate k 0)[i := 1]"

section \<open>Concrete inputs\<close>

text \<open>The conversion on the values that every dtype represents exactly, such as 0, 1
  and 4: it leaves them as they are. The concrete runtime \<open>notebook exact\<close> below converts
  no other value: the one buffer that changes its dtype holds the element 4.\<close>

definition exact :: "dtype \<Rightarrow> real \<Rightarrow> real" where
  "exact d x = x"

text \<open>The scenario of section 8 of the specification: two outcomes, weights
  \<open>[0.5, 0.5]\<close>, mean \<open>[1, 3]\<close>, covariance \<open>diag(4, 1)\<close>, beta 4, maximize.\<close>

definition example_posterior :: Posterior where
  "example_posterior =
     \<lparr>mean = \<lparr>dtype = Float32, device = CPU, shape = [1, 1, 2], data = [1, 3]\<rparr>,
      covariance_matrix = \<lparr>dtype = Float32, device = CPU, shape = [1, 2, 2], data = [4, 0, 0, 1]\<rparr>\<rparr>"

definition example_X :: "real tensor" where
  "example_X = \<lparr>dtype = Float32, device = CPU, shape = [1, 1, 1], data = [0]\<rparr>"

definition example_scorer :: ScalarizedUpperConfidenceBound where
  "example_scorer =
     \<lparr>model = \<lparr>posterior = (\<lambda>X. example_posterior)\<rparr>,
      maximize = True,
      beta = \<lparr>dtype = Float32, device = CPU, shape = [], data = [4]\<rparr>,
      weights = \<lparr>dtype = Float32, device = CPU, shape = [2], data = [1 / 2, 1 / 2]\<rparr>\<rparr>"

text \<open>The same scorer on a covariance whose off-diagonal entries carry a rounding
  error: the scalarized mean is 2 and the quadratic form at the weights is \<open>-1/2000\<close>,
  the elements of the two tensors that line 139 would receive. Then the scorer with
  three weights for the two outcomes, with a beta buffer in double precision, and with a
  model that has the posterior of the scenario at \<open>example_X\<close> only.\<close>

definition rounded_posterior :: Posterior where
  "rounded_posterior =
     \<lparr>mean = \<lparr>dtype = Float32, device = CPU, shape = [1, 1, 2], data = [1, 3]\<rparr>,
      covariance_matrix = \<lparr>dtype = Float32, device = CPU, shape = [1, 2, 2],
                           data = [1, - (1001 / 1000), - (1001 / 1000), 1]\<rparr>\<rparr>"

definition rounded_scorer :: ScalarizedUpperConfidenceBound where
  "rounded_scorer = example_scorer\<lparr>model := \<lparr>posterior = (\<lambda>X. rounded_posterior)\<rparr>\<rparr>"

definition rounded_mean :: "real tensor" where
  "rounded_mean = \<lparr>dtype = Float32, device = CPU, shape = [1], data = [2]\<rparr>"

definition rounded_variance :: "real tensor" where
  "rounded_variance = \<lparr>dtype = Float32, device = CPU, shape = [1], data = [- (1 / 2000)]\<rparr>"

definition mismatch_scorer :: ScalarizedUpperConfidenceBound where
  "mismatch_scorer =
     example_scorer\<lparr>weights := \<lparr>dtype = Float32, device = CPU, shape = [3],
                                  data = [1 / 3, 1 / 3, 1 / 3]\<rparr>\<rparr>"

definition double_scorer :: ScalarizedUpperConfidenceBound where
  "double_scorer =
     example_scorer\<lparr>beta := \<lparr>dtype = Float64, device = CPU, shape = [], data = [4]\<rparr>\<rparr>"

definition other_model_scorer :: ScalarizedUpperConfidenceBound where
  "other_model_scorer =
     example_scorer\<lparr>model := \<lparr>posterior =
        (\<lambda>X. if X = example_X then example_posterior else rounded_posterior)\<rparr>\<rparr>"

text \<open>A Monte-Carlo scorer with two draws of one t-batch of two points with two
  outcomes, and the same with three weights.\<close>

definition example_q_posterior :: Posterior where
  "example_q_posterior =
     \<lparr>mean = \<lparr>dtype = Float32, device = CPU, shape = [1, 2, 2], data = [1, 1, 2, 2]\<rparr>,
      covariance_matrix = \<lparr>dtype = Float32, device = CPU, shape = [1, 4, 4],
                           data = [1, 0, 0, 0, 0, 1, 0, 0, 0, 0, 1, 0, 0, 0, 0, 1]\<rparr>\<rparr>"

definition example_q_X :: "real tensor" where
  "example_q_X = \<lparr>dtype = Float32, device = CPU, shape = [1, 2, 1], data = [0, 1]\<rparr>"

definition example_q_scorer :: "real \<Rightarrow> qScalarizedUpperConfidenceBound" where
  "example_q_scorer be =
     \<lparr>qmodel = \<lparr>posterior = (\<lambda>X. example_q_posterior)\<rparr>,
      qsampler = (\<lambda>p. \<lparr>dtype = Float32, device = CPU, shape = [2, 1, 2, 2],
                         data = [1, 2, 3, 4, 5, 6, 7, 8]\<rparr>),
      qbeta = \<lparr>dtype = Float32, device = CPU, shape = [], data = [be]\<rparr>,
      qweights = \<lparr>dtype = Float32, device = CPU, shape = [2], data = [1, 1]\<rparr>\<rparr>"

definition mismatch_q_scorer :: qScalarizedUpperConfidenceBound where
  "mismatch_q_scorer =
     (example_q_scorer 0)\<lparr>qweights := \<lparr>dtype = Float32, device = CPU, shape = [3],
                                        data = [1, 1, 1]\<rparr>\<rparr>"

lemmas example_defs = example_scorer_def example_X_def example_posterior_def rounded_posterior_def
  example_q_posterior_def example_q_X_def example_q_scorer_def

lemmas more_defs = rounded_scorer_def mismatch_scorer_def mismatch_q_scorer_def double_scorer_def
  other_model_scorer_def rounded_mean_def rounded_variance_def

lemmas spec_defs = wdot_def quad_form_def mean_of_def cov_of_def beta_of_def row_def

section \<open>Rows, repetitions and flat indices\<close>

lemma length_row: "(i + 1) * k \<le> length xs \<Longrightarrow> length (row k xs i) = k"
  by (simp add: row_def)

lemma length_mean_row:
  assumes "length xs = b * k" "t < b"
  shows "length (row k xs t) = k"
proof -
  have "Suc t * k \<le> b * k" using assms(2) by (intro mult_le_mono1) simp
  then show ?thesis using assms(1) by (simp add: length_row)
qed

lemma concat_rows: "length xs = n * k \<Longrightarrow> concat (map (row k xs) [0..<n]) = xs"
proof (induction n arbitrary: xs rule: nat.induct)
  case zero
  then show ?case by simp
next
  case (Suc n)
  have "concat (map (row k xs) [0..<n]) = concat (map (row k (take (n * k) xs)) [0..<n])"
  proof -
    have "\<And>i. i < n \<Longrightarrow> row k xs i = row k (take (n * k) xs) i"
    proof -
      fix i assume "i < n"
      then have "i * k + k \<le> n * k"
        by (metis Suc_leI mult_Suc mult_le_mono1 add.commute)
      then show "row k xs i = row k (take (n * k) xs) i"
        by (simp add: row_def take_drop min_def)
    qed
    then show ?thesis by (auto intro!: arg_cong[where f=concat])
  qed
  also have "\<dots> = take (n * k) xs"
    using Suc.prems by (intro Suc.IH) simp
  finally have "concat (map (row k xs) [0..<Suc n]) = take (n * k) xs @ row k xs n"
    by simp
  also have "row k xs n = drop (n * k) xs"
    using Suc.prems by (simp add: row_def)
  finally show ?case by simp
qed

lemma nth_concat_replicate:
  "t < b \<Longrightarrow> k < length xs \<Longrightarrow> concat (replicate b xs) ! (t * length xs + k) = xs ! k"
proof (induction b arbitrary: t)
  case 0
  then show ?case by simp
next
  case (Suc b)
  show ?case
  proof (cases t)
    case 0
    then show ?thesis using Suc.prems by (simp add: nth_append)
  next
    case (Suc t')
    then have "t' < b" using Suc.prems by simp
    then show ?thesis using Suc Suc.IH[of t'] Suc.prems by (simp add: nth_append)
  qed
qed

lemma length_concat_replicate: "length (concat (replicate b xs)) = b * length xs"
  by (induction b) auto

lemma concat_replicate_nth:
  assumes "idx < n * length xs"
  shows "concat (replicate n xs) ! idx = xs ! (idx mod length xs)"
proof -
  have pos: "0 < length xs" using assms by (cases "length xs") auto
  have "idx div length xs < n"
    using assms by (metis less_mult_imp_div_less mult.commute)
  moreover have "idx mod length xs < length xs" using pos by simp
  ultimately have "concat (replicate n xs) ! (idx div length xs * length xs + idx mod length xs)
      = xs ! (idx mod length xs)"
    by (rule nth_concat_replicate)
  then show ?thesis by simp
qed

lemma concat_replicate_single: "length xs = Suc 0 \<Longrightarrow> concat (replicate b xs) = map (\<lambda>t. xs ! 0) [0..<b]"
proof -
  assume "length xs = Suc 0"
  then obtain x where xs: "xs = [x]" by (cases xs) auto
  have "concat (replicate b [x]) = replicate b x" by (induction b) auto
  also have "\<dots> = map (\<lambda>t. x) [0..<b]" by (simp add: map_replicate_const)
  finally show ?thesis using xs by simp
qed

lemma row_map_upt:
  assumes "r < m"
  shows "row q (map f [0..<m * q]) r = map (\<lambda>j. f (r * q + j)) [0..<q]"
proof -
  have "Suc r * q \<le> m * q" using assms by (intro mult_le_mono1) simp
  then have le: "r * q + q \<le> m * q" by simp
  show ?thesis
  proof (intro nth_equalityI)
    show "length (row q (map f [0..<m * q]) r) = length (map (\<lambda>j. f (r * q + j)) [0..<q])"
      using le by (simp add: row_def)
  next
    fix i assume "i < length (row q (map f [0..<m * q]) r)"
    then have i: "i < q" by (simp add: row_def)
    then have lt: "r * q + i < m * q" using le by simp
    have "r * q \<le> m * q" using le by linarith
    then have "r * q \<le> length (map f [0..<m * q])" by (simp del: mult_le_cancel2)
    then have "drop (r * q) (map f [0..<m * q]) ! i = map f [0..<m * q] ! (r * q + i)"
      by (rule nth_drop)
    also have "\<dots> = f (r * q + i)" using lt by simp
    finally show "row q (map f [0..<m * q]) r ! i = map (\<lambda>j. f (r * q + j)) [0..<q] ! i"
      using i by (simp add: row_def)
  qed
qed

lemma map2_upt: "map2 f (map g [0..<n]) (map h [0..<n]) = map (\<lambda>t. f (g t) (h t)) [0..<n]"
  by (intro nth_equalityI) simp_all

lemma upt_3: "[0..<3] = [0, Suc 0, Suc (Suc 0)]"
  by (simp add: upt_rec numeral_3_eq_3)

lemma div_mod_flat: "idx < b * k \<Longrightarrow> (idx div k) mod b * k + idx mod k = (idx::nat)"
proof -
  assume a: "idx < b * k"
  then have "idx div k < b"
    by (metis less_mult_imp_div_less mult.commute)
  then have "(idx div k) mod b = idx div k" by simp
  then show ?thesis by (simp add: div_mult_mod_eq)
qed

lemma flat_index_lt:
  assumes "i < n" "t < b" "j < (q::nat)"
  shows "(i * b + t) * q + j < n * b * q" "i * b + t < n * b" "t * q + j < b * q"
proof -
  have "Suc i * b \<le> n * b" using assms(1) by (intro mult_le_mono1) simp
  then show 1: "i * b + t < n * b" using assms(2) by simp
  then have "Suc (i * b + t) * q \<le> n * b * q" by (intro mult_le_mono1) simp
  then show "(i * b + t) * q + j < n * b * q" using assms(3) by simp
  have "Suc t * q \<le> b * q" using assms(2) by (intro mult_le_mono1) simp
  then show "t * q + j < b * q" using assms(3) by simp
qed

lemma flat_index_mod:
  assumes "t < b" "j < (q::nat)"
  shows "((i * b + t) * q + j) mod (b * q) = t * q + j"
proof -
  have eq: "(i * b + t) * q + j = i * (b * q) + (t * q + j)"
    by (simp add: algebra_simps)
  have lt: "t * q + j < b * q" using flat_index_lt(3)[of 0 1 t b j q] assms by simp
  have "((i * b + t) * q + j) mod (b * q) = (i * (b * q) + (t * q + j)) mod (b * q)"
    by (simp only: eq)
  also have "\<dots> = (t * q + j) mod (b * q)"
    by (rule mod_mult_self3)
  also have "\<dots> = t * q + j"
    using lt by (rule mod_less)
  finally show ?thesis .
qed

section \<open>Sums\<close>

lemma sum_list_upt: "(\<Sum>i\<leftarrow>[0..<n]. f i) = (\<Sum>i<n. (f i :: real))"
  by (simp add: interv_sum_list_conv_sum_set_nat atLeast0LessThan)

lemma sum_list_upt_cong:
  "(\<And>k. k < n \<Longrightarrow> f k = g k) \<Longrightarrow> (\<Sum>k\<leftarrow>[0..<n]. f k) = (\<Sum>k\<leftarrow>[0..<n]. (g k :: real))"
  by (rule arg_cong[where f = sum_list]) simp

lemma dot_wdot:
  assumes "length xs = length ys"
  shows "dot xs ys = wdot ys xs"
proof -
  have "dot xs ys = (\<Sum>i\<leftarrow>[0..<length ys]. ys ! i * xs ! i)"
  proof -
    have "map2 (*) xs ys = map (\<lambda>i. ys ! i * xs ! i) [0..<length ys]"
      using assms by (intro nth_equalityI) (simp_all add: mult.commute)
    then show ?thesis by (simp add: dot_def)
  qed
  then show ?thesis by (simp add: wdot_def sum_list_upt)
qed

lemma dot_row_wdot:
  assumes "length xs = m * k" "r < m" "length w = k"
  shows "dot (row k xs r) w = wdot w (row k xs r)"
proof -
  have "length (row k xs r) = length w"
    using length_mean_row[OF assms(1,2)] assms(3) by simp
  then show ?thesis by (rule dot_wdot)
qed

lemma quad_form_list:
  assumes "length ws = k" "t < b"
  shows "(\<Sum>i\<leftarrow>[0..<k]. ws ! i * (\<Sum>j\<leftarrow>[0..<k]. C ! ((t * k + i) div k * k * k + (t * k + i) mod k * k + j) * ws ! j))
       = quad_form ws (\<lambda>i j. C ! (t * k * k + i * k + j))"
proof -
  have "\<And>i. i < k \<Longrightarrow> ws ! i * (\<Sum>j\<leftarrow>[0..<k]. C ! ((t * k + i) div k * k * k + (t * k + i) mod k * k + j) * ws ! j)
       = (\<Sum>j<k. ws ! i * C ! (t * k * k + i * k + j) * ws ! j)"
    by (simp add: sum_list_upt sum_distrib_left mult.assoc)
  then show ?thesis
    using assms(1) by (simp add: quad_form_def sum_list_upt)
qed

lemma maximum_Max: "xs \<noteq> [] \<Longrightarrow> maximum xs = Max (set xs)"
proof (induction xs rule: maximum.induct)
  case 1
  then show ?case by simp
next
  case (2 x)
  then show ?case by simp
next
  case (3 x y ys)
  then show ?case by (simp add: max.commute max.left_commute)
qed

section \<open>The tensor operations on the shapes of the two scorers\<close>

lemma expandable_same: "expandable s s"
  by (induction s) auto

lemma bdims_same: "bdims s s = Some s"
  by (induction s) auto

lemma expand_data_same: "length xs = numel s \<Longrightarrow> expand_data s s xs = xs"
proof (induction s arbitrary: xs)
  case Nil
  then show ?case by simp
next
  case (Cons n s)
  have len: "length xs = n * numel s" using Cons.prems by (simp add: numel_def)
  have "\<And>i. i < n \<Longrightarrow> expand_data s s (row (numel s) xs i) = row (numel s) xs i"
  proof -
    fix i assume "i < n"
    then have "Suc i \<le> n" by simp
    then have "Suc i * numel s \<le> n * numel s"
      by (rule mult_le_mono1)
    then have "(i + 1) * numel s \<le> n * numel s" by simp
    then have "length (row (numel s) xs i) = numel s"
      using len by (simp add: length_row)
    then show "expand_data s s (row (numel s) xs i) = row (numel s) xs i"
      by (rule Cons.IH)
  qed
  then have "map (\<lambda>i. expand_data s s (row (numel s) xs i)) [0..<n] = map (row (numel s) xs) [0..<n]"
    by simp
  then have "expand_data (n # s) (n # s) xs = concat (map (row (numel s) xs) [0..<n])"
    by (simp del: map_eq_conv)
  then show ?case using concat_rows[OF len] by simp
qed

lemma expand_data_lead:
  assumes "length xs = numel s"
  shows "expand_data (Suc 0 # s) (b # s) xs = concat (replicate b xs)"
proof (cases "b = Suc 0")
  case True
  have "row (numel s) xs 0 = xs" using assms by (simp add: row_def)
  then show ?thesis using True expand_data_same[OF assms] by simp
next
  case False
  then show ?thesis using expand_data_same[OF assms] by auto
qed

lemma squeeze_mean:
  "shape m = [b, Suc 0, k] \<Longrightarrow> squeeze m (- 2) = Inr (m\<lparr>shape := [b, k]\<rparr>)"
  by (simp add: squeeze_def Let_def)

lemma matmul_rows:
  "shape a = [b, k] \<Longrightarrow> shape w = [k] \<Longrightarrow>
   matmul a w = Inr (a\<lparr>shape := [b], data := map (\<lambda>i. dot (row k (data a) i) (data w)) [0..<b]\<rparr>)"
  by (simp add: matmul_def numel_def)

lemma matmul_rows_gen:
  "shape a = s @ [k] \<Longrightarrow> shape w = [k] \<Longrightarrow>
   matmul a w = Inr (a\<lparr>shape := s, data := map (\<lambda>i. dot (row k (data a) i) (data w)) [0..<numel s]\<rparr>)"
  by (simp add: matmul_def)

lemma view_weights:
  "shape w = [k] \<Longrightarrow> view w [1, - 1, 1] = Inr (w\<lparr>shape := [1, k, 1]\<rparr>)"
  by (simp add: view_def numel_def Let_def)

lemma expand_weights:
  assumes "shape w = [Suc 0, k, Suc 0]" "length (data w) = k"
  shows "expand w [b, k, Suc 0] = Inr (w\<lparr>shape := [b, k, Suc 0], data := concat (replicate b (data w))\<rparr>)"
proof -
  have "length (data w) = numel [k, Suc 0]" using assms by (simp add: numel_def)
  from expand_data_lead[OF this, of b] show ?thesis
    using assms by (simp add: expand_def pad_def expandable_same)
qed

lemma permute_weights:
  assumes "shape w = [b, k, Suc 0]" "length (data w) = b * k"
  shows "permute w [0, 2, 1] = Inr (w\<lparr>shape := [b, Suc 0, k]\<rparr>)"
proof -
  have "map (\<lambda>idx. data w ! ((idx div k) mod b * k + idx mod k)) [0..<b * k] = map (\<lambda>idx. data w ! idx) [0..<b * k]"
    by (simp add: div_mod_flat)
  also have "\<dots> = data w" using assms(2) by (metis map_nth)
  finally have "map (\<lambda>idx. data w ! ((idx div k) mod b * k + idx mod k)) [0..<b * k] = data w" .
  then show ?thesis using assms(1)
    by (simp add: permute_def Let_def strides_def numel_def upt_3 numeral_3_eq_3 numeral_2_eq_2)
qed

lemma bmm_cov_w:
  assumes C: "shape C = [b, k, k]"
    and W: "shape W = [b, k, Suc 0]" "data W = concat (replicate b ws)" "length ws = k"
  shows "bmm C W = Inr (C\<lparr>shape := [b, k, Suc 0],
           data := map (\<lambda>idx. \<Sum>j\<leftarrow>[0..<k]. data C ! (idx div k * k * k + idx mod k * k + j) * ws ! j)
                     [0..<b * k]\<rparr>)"
proof -
  have "\<And>idx. idx < b * k \<Longrightarrow>
      (\<Sum>j\<leftarrow>[0..<k]. data C ! (idx div k * k * k + idx mod k * k + j) * data W ! (idx div k * k + j))
    = (\<Sum>j\<leftarrow>[0..<k]. data C ! (idx div k * k * k + idx mod k * k + j) * ws ! j)"
  proof -
    fix idx assume a: "idx < b * k"
    then have t: "idx div k < b"
      by (metis less_mult_imp_div_less mult.commute)
    show "(\<Sum>j\<leftarrow>[0..<k]. data C ! (idx div k * k * k + idx mod k * k + j) * data W ! (idx div k * k + j))
    = (\<Sum>j\<leftarrow>[0..<k]. data C ! (idx div k * k * k + idx mod k * k + j) * ws ! j)"
    proof (rule sum_list_upt_cong)
      fix j assume "j < k"
      then have "data W ! (idx div k * k + j) = ws ! j"
        using nth_concat_replicate[of "idx div k" b j ws] t W by simp
      then show "data C ! (idx div k * k * k + idx mod k * k + j) * data W ! (idx div k * k + j)
         = data C ! (idx div k * k * k + idx mod k * k + j) * ws ! j" by simp
    qed
  qed
  then show ?thesis using C W(1)
    by (simp add: bmm_def Let_def numeral_3_eq_3 numeral_2_eq_2)
qed

lemma bmm_wT_cw:
  assumes WT: "shape WT = [b, Suc 0, k]" "data WT = concat (replicate b ws)" "length ws = k"
    and CW: "shape CW = [b, k, Suc 0]" "data CW = map g [0..<b * k]"
  shows "bmm WT CW = Inr (WT\<lparr>shape := [b, Suc 0, Suc 0],
           data := map (\<lambda>t. \<Sum>i\<leftarrow>[0..<k]. ws ! i * g (t * k + i)) [0..<b]\<rparr>)"
proof -
  have "\<And>t. t < b \<Longrightarrow>
      (\<Sum>i\<leftarrow>[0..<k]. data WT ! (t * k + i) * data CW ! (t * k + i))
    = (\<Sum>i\<leftarrow>[0..<k]. ws ! i * g (t * k + i))"
  proof -
    fix t assume t: "t < b"
    show "(\<Sum>i\<leftarrow>[0..<k]. data WT ! (t * k + i) * data CW ! (t * k + i))
    = (\<Sum>i\<leftarrow>[0..<k]. ws ! i * g (t * k + i))"
    proof (rule sum_list_upt_cong)
      fix i assume i: "i < k"
      have 1: "data WT ! (t * k + i) = ws ! i"
        using nth_concat_replicate[of t b i ws] t i WT by simp
      have "t * k + i < t * k + k" using i by simp
      also have "\<dots> = Suc t * k" by simp
      also have "\<dots> \<le> b * k" using t by (intro mult_le_mono1) simp
      finally have "t * k + i < b * k" .
      then have 2: "data CW ! (t * k + i) = g (t * k + i)"
        using CW(2) by simp
      show "data WT ! (t * k + i) * data CW ! (t * k + i) = ws ! i * g (t * k + i)"
        using 1 2 by simp
    qed
  qed
  then show ?thesis using WT(1) CW(1)
    by (simp add: bmm_def Let_def numeral_3_eq_3 numeral_2_eq_2)
qed

lemma view_batch:
  "shape t = [b, Suc 0, Suc 0] \<Longrightarrow> view t (map int [b]) = Inr (t\<lparr>shape := [b]\<rparr>)"
  by (simp add: view_def numel_def Let_def)

lemma expand_beta:
  assumes "shape be = [] \<or> shape be = [Suc 0] \<or> shape be = [b]"
    and "length (data be) = numel (shape be)"
  shows "expand be [b] = Inr (be\<lparr>shape := [b], data := map (beta_of be) [0..<b]\<rparr>)"
proof -
  consider (scalar) "shape be = [] \<or> shape be = [Suc 0]" | (batch) "shape be = [b]" "b \<noteq> Suc 0"
    using assms(1) by auto
  then show ?thesis
  proof cases
    case scalar
    then have len: "length (data be) = Suc 0" using assms(2) by (auto simp: numel_def)
    then have l0: "length (data be) = numel []" by (simp add: numel_def)
    have p: "pad (Suc 0) (shape be) = [Suc 0]" using scalar by (auto simp: pad_def)
    have "expand_data [Suc 0] [b] (data be) = map (beta_of be) [0..<b]"
      using expand_data_lead[OF l0, of b] concat_replicate_single[OF len, of b] len
      by (simp add: beta_of_def)
    then show ?thesis using scalar p by (auto simp: expand_def)
  next
    case batch
    then have len: "length (data be) = b" using assms(2) by (simp add: numel_def)
    have p: "pad (Suc 0) (shape be) = [b]" using batch by (simp add: pad_def)
    have "map (beta_of be) [0..<b] = map (\<lambda>t. data be ! t) [0..<b]"
      using batch(2) len by (simp add: beta_of_def)
    also have "\<dots> = data be" using len by (metis map_nth)
    finally have "expand_data [b] [b] (data be) = map (beta_of be) [0..<b]"
      using expand_data_same[of "data be" "[b]"] assms(2) batch(1) by simp
    then show ?thesis using batch(1) p by (simp add: expand_def)
  qed
qed

lemma binop_same:
  assumes "shape a = [b]" "shape c = [b]" "length (data a) = b" "length (data c) = b"
  shows "binop f a c = Inr \<lparr>dtype = dtype a, device = device a, shape = [b],
                             data = map2 f (data a) (data c)\<rparr>"
proof -
  have "expand_data [b] [b] (data a) = data a" "expand_data [b] [b] (data c) = data c"
    using assms by (simp_all add: expand_data_same numel_def del: expand_data.simps)
  then show ?thesis using assms(1,2)
    by (simp add: binop_def broadcast_shapes_def pad_def)
qed

lemma binop_sub_bcast:
  assumes "shape a = [n, b, q]" "length (data a) = n * b * q"
    and "shape c = [b, q]" "length (data c) = b * q"
  shows "binop f a c = Inr \<lparr>dtype = dtype a, device = device a, shape = [n, b, q],
            data = map2 f (data a) (concat (replicate n (data c)))\<rparr>"
proof -
  have 1: "expand_data [n, b, q] [n, b, q] (data a) = data a"
    using assms(2) by (intro expand_data_same) (simp add: numel_def)
  have 2: "expand_data [Suc 0, b, q] [n, b, q] (data c) = concat (replicate n (data c))"
    using assms(4) by (intro expand_data_lead) (simp add: numel_def)
  have 3: "broadcast_shapes [n, b, q] [b, q] = Some [n, b, q]"
    using bdims_same[of "[b, q]"] by (simp add: broadcast_shapes_def pad_def)
  show ?thesis using 1 2 3 assms(1,3)
    by (simp add: binop_def pad_def del: expand_data.simps bdims.simps)
qed

lemma binop_add_bcast:
  assumes "shape a = [b, q]" "length (data a) = b * q"
    and "shape c = [n, b, q]" "length (data c) = n * b * q"
  shows "binop f a c = Inr \<lparr>dtype = dtype a, device = device a, shape = [n, b, q],
            data = map2 f (concat (replicate n (data a))) (data c)\<rparr>"
proof -
  have 1: "expand_data [n, b, q] [n, b, q] (data c) = data c"
    using assms(4) by (intro expand_data_same) (simp add: numel_def)
  have 2: "expand_data [Suc 0, b, q] [n, b, q] (data a) = concat (replicate n (data a))"
    using assms(2) by (intro expand_data_lead) (simp add: numel_def)
  have 3: "broadcast_shapes [b, q] [n, b, q] = Some [n, b, q]"
    using bdims_same[of "[b, q]"] by (auto simp add: broadcast_shapes_def pad_def)
  show ?thesis using 1 2 3 assms(1,3)
    by (simp add: binop_def pad_def del: expand_data.simps bdims.simps)
qed

lemma math_sqrt_beta:
  assumes "numel (shape be) = 1" "length (data be) = 1" "0 \<le> hd (data be)"
  shows "math_sqrt (tensor_div (tensor_mul be pi) 2) = Inr (sqrt (hd (data be) * pi / 2))"
proof -
  obtain x where x: "data be = [x]" using assms(2) by (cases "data be") auto
  then have "0 \<le> x * pi" using assms(3) by simp
  then show ?thesis using assms(1) x
    by (simp add: math_sqrt_def tensor_div_def tensor_mul_def)
qed

lemma max_last_3:
  assumes "shape u = [n, b, q]" "0 < q"
  shows "max_last u = Inr (u\<lparr>shape := [n, b],
      data := map (\<lambda>r. maximum (row q (data u) r)) [0..<n * b]\<rparr>)"
  using assms by (simp add: max_last_def numel_def)

lemma mean_dim0_2:
  assumes "shape m = [n, b]" "0 < n"
  shows "mean_dim0 m = \<lparr>dtype = dtype m, device = device m, shape = [b],
      data = map (\<lambda>t. Fin ((\<Sum>i\<leftarrow>[0..<n]. data m ! (i * b + t)) / real n)) [0..<b]\<rparr>"
  using assms by (simp add: mean_dim0_def numel_def)

lemma tensor_to_same:
  "(tensor_to c t X = t) = (dtype t = dtype X \<and> device t = device X)"
proof
  assume a: "tensor_to c t X = t"
  have "dtype (tensor_to c t X) = dtype X" "device (tensor_to c t X) = device X"
    by (simp_all add: tensor_to_def)
  then show "dtype t = dtype X \<and> device t = device X" using a by simp
next
  assume "dtype t = dtype X \<and> device t = device X"
  then show "tensor_to c t X = t" by (simp add: tensor_to_def)
qed

section \<open>The two bodies in the notebook as it is written\<close>

text \<open>Neither module name is bound in the namespace of the notebook. On well-shaped
  inputs the analytic body computes the scalarized mean, prepares the weights, and
  raises NameError at line 136; the Monte-Carlo body scalarizes the draws and the mean
  and raises NameError at line 71.\<close>

lemma torch_unbound: "''torch'' \<notin> names (notebook c)"
  by (simp add: notebook_def notebook_names_def)

lemma math_unbound: "''math'' \<notin> names (notebook c)"
  by (simp add: notebook_def notebook_names_def)

lemma scalarized_mean_eq:
  assumes "shape w = [k]" "length (data w) = k"
    and "shape (mean post) = [b, Suc 0, k]" "length (data (mean post)) = b * k"
  shows "scalarized_mean w post =
     Inr ((mean post)\<lparr>shape := [b], data := map (\<lambda>t. wdot (data w) (mean_of post k t)) [0..<b]\<rparr>)"
proof -
  have "\<And>t. t < b \<Longrightarrow> dot (row k (data (mean post)) t) (data w) = wdot (data w) (mean_of post k t)"
  proof -
    fix t assume "t < b"
    then have "length (row k (data (mean post)) t) = length (data w)"
      using length_mean_row[OF assms(4)] assms(2) by simp
    then show "dot (row k (data (mean post)) t) (data w) = wdot (data w) (mean_of post k t)"
      by (simp add: dot_wdot mean_of_def)
  qed
  then have "map (\<lambda>t. dot (row k (data (mean post)) t) (data w)) [0..<b]
      = map (\<lambda>t. wdot (data w) (mean_of post k t)) [0..<b]" by simp
  then show ?thesis using assms(1,3)
    by (simp add: scalarized_mean_def ebind_def squeeze_mean matmul_rows)
qed

lemma scalarized_variance_unbound:
  assumes w: "shape w = [k]" "length (data w) = k"
    and tb: "''torch'' \<notin> names env"
  shows "scalarized_variance env w [b] post = Inl NameError"
proof -
  let ?w1 = "w\<lparr>shape := [Suc 0, k, Suc 0]\<rparr>"
  let ?w2 = "w\<lparr>shape := [b, k, Suc 0], data := concat (replicate b (data w))\<rparr>"
  let ?wT = "w\<lparr>shape := [b, Suc 0, k], data := concat (replicate b (data w))\<rparr>"
  have 1: "view w [1, - 1, 1] = Inr ?w1" using view_weights[OF w(1)] by simp
  have 2: "expand ?w1 [b, k, Suc 0] = Inr ?w2"
    using expand_weights[of ?w1 k b] w(2) by simp
  have 3: "permute ?w2 [0, 2, 1] = Inr ?wT"
    using permute_weights[of ?w2 b k] w(2) by (simp add: length_concat_replicate)
  show ?thesis
    unfolding scalarized_variance_def Let_def
    using 1 2 3 tb by (simp add: ebind_def lookup_def)
qed

lemma forward_unbound:
  assumes "analytic_inputs self X b d k" and tb: "''torch'' \<notin> names env"
  shows "returned (forward env self X) = Inl NameError"
proof -
  let ?post = "posterior (model self) X"
  let ?w = "weights self"
  let ?m = "\<lambda>t. wdot (data ?w) (mean_of ?post k t)"
  let ?sm = "(mean ?post)\<lparr>shape := [b], data := map ?m [0..<b]\<rparr>"
  from assms(1) have X: "shape X = [b, Suc 0, d]"
    and w: "shape ?w = [k]" "length (data ?w) = k"
    and mu: "shape (mean ?post) = [b, Suc 0, k]" "length (data (mean ?post)) = b * k"
    by (simp_all add: analytic_inputs_def)
  have bs: "take (length (shape X) - 2) (shape X) = [b]" using X by simp
  have 1: "scalarized_mean ?w ?post = Inr ?sm"
    by (rule scalarized_mean_eq[OF w mu])
  have 2: "scalarized_variance env ?w [b] ?post = Inl NameError"
    by (rule scalarized_variance_unbound[OF w tb])
  show ?thesis
    unfolding forward_def Let_def using bs 1 2 by (simp add: ebind_def)
qed

lemma q_forward_unbound:
  assumes "mc_inputs self X n b q k" and mb: "''math'' \<notin> names env"
  shows "returned (q_forward env self X) = Inl NameError"
proof -
  let ?post = "posterior (qmodel self) X"
  let ?S = "qsampler self ?post"
  let ?w = "qweights self"
  from assms(1) have w: "shape ?w = [k]"
    and mu: "shape (mean ?post) = [b, q, k]"
    and sa: "shape ?S = [n, b, q, k]"
    by (simp_all add: mc_inputs_def)
  have 1: "\<exists>r. matmul ?S ?w = Inr r"
    using matmul_rows_gen[of ?S "[n, b, q]" k ?w] sa w by simp
  have 2: "\<exists>r. matmul (mean ?post) ?w = Inr r"
    using matmul_rows_gen[of "mean ?post" "[b, q]" k ?w] mu w by simp
  show ?thesis
    unfolding q_forward_def Let_def
    using 1 2 mb by (auto simp: ebind_def lookup_def)
qed

lemma example_inputs: "analytic_inputs example_scorer example_X 1 1 2"
  by (simp add: analytic_inputs_def example_defs numel_def)


lemma example_q_inputs: "0 \<le> be \<Longrightarrow> mc_inputs (example_q_scorer be) example_q_X 2 1 2 2"
  by (simp add: mc_inputs_def example_defs numel_def)

section \<open>The two bodies where the module names resolve\<close>

text \<open>In a namespace that binds \<^verbatim>\<open>torch\<close> and \<^verbatim>\<open>math\<close> to the two modules, the statements
  after the lookups run: line 139 takes the square root of the product as it is, the
  analytic body returns the score of section 4.1 for every t-batch, and the Monte-Carlo
  body the score of section 4.2, all in real arithmetic. This is what the notebook sets
  out to compute; it is not what a call in the notebook as written does.\<close>

lemma scalarized_variance_eq:
  assumes w: "shape w = [k]" "length (data w) = k"
    and c: "shape (covariance_matrix post) = [b, k, k]"
    and tb: "''torch'' \<in> names env"
  shows "scalarized_variance env w [b] post =
     Inr (w\<lparr>shape := [b], data := map (\<lambda>t. quad_form (data w) (cov_of post k t)) [0..<b]\<rparr>)"
proof -
  let ?C = "covariance_matrix post"
  let ?w1 = "w\<lparr>shape := [Suc 0, k, Suc 0]\<rparr>"
  let ?w2 = "w\<lparr>shape := [b, k, Suc 0], data := concat (replicate b (data w))\<rparr>"
  let ?wT = "w\<lparr>shape := [b, Suc 0, k], data := concat (replicate b (data w))\<rparr>"
  let ?g = "\<lambda>idx. \<Sum>j\<leftarrow>[0..<k]. data ?C ! (idx div k * k * k + idx mod k * k + j) * data w ! j"
  let ?cw = "?C\<lparr>shape := [b, k, Suc 0], data := map ?g [0..<b * k]\<rparr>"
  have 1: "view w [1, - 1, 1] = Inr ?w1" using view_weights[OF w(1)] by simp
  have 2: "expand ?w1 [b, k, Suc 0] = Inr ?w2"
    using expand_weights[of ?w1 k b] w(2) by simp
  have 3: "permute ?w2 [0, 2, 1] = Inr ?wT"
    using permute_weights[of ?w2 b k] w(2) by (simp add: length_concat_replicate)
  have 4: "bmm ?C ?w2 = Inr ?cw"
    using bmm_cov_w[of ?C b k ?w2 "data w"] c w(2) by simp
  have 5: "bmm ?wT ?cw = Inr (w\<lparr>shape := [b, Suc 0, Suc 0],
       data := map (\<lambda>t. \<Sum>i\<leftarrow>[0..<k]. data w ! i * ?g (t * k + i)) [0..<b]\<rparr>)"
    using bmm_wT_cw[of ?wT b k "data w" ?cw ?g] w(2) by simp
  have 6: "map (\<lambda>t. \<Sum>i\<leftarrow>[0..<k]. data w ! i * ?g (t * k + i)) [0..<b]
      = map (\<lambda>t. quad_form (data w) (cov_of post k t)) [0..<b]"
  proof -
    have "\<And>t. cov_of post k t = (\<lambda>i j. data ?C ! (t * k * k + i * k + j))"
      by (intro ext) (simp add: cov_of_def)
    then show ?thesis
      using quad_form_list[OF w(2), of _ b "data ?C"] by simp
  qed
  show ?thesis
    unfolding scalarized_variance_def Let_def
    using 1 2 3 4 5 6 tb view_batch[of "w\<lparr>shape := [b, Suc 0, Suc 0],
       data := map (\<lambda>t. \<Sum>i\<leftarrow>[0..<k]. data w ! i * ?g (t * k + i)) [0..<b]\<rparr>" b]
    by (simp add: ebind_def lookup_def)
qed

lemma delta_eq:
  assumes sm: "shape sm = [b]"
    and sv: "shape sv = [b]" "length (data sv) = b"
    and be: "shape be = [] \<or> shape be = [Suc 0] \<or> shape be = [b]"
            "length (data be) = numel (shape be)"
  shows "delta be sm sv =
     Inr \<lparr>dtype = dtype be, device = device be, shape = [b],
          data = map (\<lambda>t. tsqrt (beta_of be t * data sv ! t)) [0..<b]\<rparr>"
proof -
  let ?bx = "be\<lparr>shape := [b], data := map (beta_of be) [0..<b]\<rparr>"
  have d: "data sv = map (\<lambda>t. data sv ! t) [0..<b]"
    using sv(2) by (metis map_nth)
  have 1: "expand_as be sm = Inr ?bx"
    using expand_beta[OF be] sm by (simp add: expand_as_def)
  have "map2 (*) (map (beta_of be) [0..<b]) (data sv)
      = map2 (*) (map (beta_of be) [0..<b]) (map (\<lambda>t. data sv ! t) [0..<b])"
    using d by simp
  also have "\<dots> = map (\<lambda>t. beta_of be t * data sv ! t) [0..<b]"
    by (rule map2_upt)
  finally have m: "map2 (*) (map (beta_of be) [0..<b]) (data sv)
      = map (\<lambda>t. beta_of be t * data sv ! t) [0..<b]" .
  have 2: "binop (*) ?bx sv = Inr \<lparr>dtype = dtype be, device = device be, shape = [b],
      data = map (\<lambda>t. beta_of be t * data sv ! t) [0..<b]\<rparr>"
    using binop_same[of ?bx b sv "(*)"] sv m by simp
  show ?thesis
    unfolding delta_def using 1 2 by (simp add: ebind_def tensor_sqrt_def comp_def)
qed

lemma forward_returned:
  assumes "analytic_inputs self X b d k" and tb: "''torch'' \<in> names env"
  shows "returned (forward env self X) =
     Inr \<lparr>dtype = dtype (mean (posterior (model self) X)),
          device = device (mean (posterior (model self) X)),
          shape = [b],
          data = map (\<lambda>t. analytic_score (data (weights self))
                             (mean_of (posterior (model self) X) k t)
                             (cov_of (posterior (model self) X) k t)
                             (beta_of (tensor_to (convert env) (beta self) X) t)
                             (maximize self)) [0..<b]\<rparr>"
proof -
  let ?post = "posterior (model self) X"
  let ?w = "weights self"
  let ?be = "tensor_to (convert env) (beta self) X"
  let ?m = "\<lambda>t. wdot (data ?w) (mean_of ?post k t)"
  let ?v = "\<lambda>t. quad_form (data ?w) (cov_of ?post k t)"
  let ?sm = "(mean ?post)\<lparr>shape := [b], data := map ?m [0..<b]\<rparr>"
  let ?sv = "?w\<lparr>shape := [b], data := map ?v [0..<b]\<rparr>"
  let ?d = "\<lparr>dtype = dtype ?be, device = device ?be, shape = [b],
              data = map (\<lambda>t. tsqrt (beta_of ?be t * ?v t)) [0..<b]\<rparr>"
  from assms(1) have X: "shape X = [b, Suc 0, d]"
    and w: "shape ?w = [k]" "length (data ?w) = k"
    and mu: "shape (mean ?post) = [b, Suc 0, k]" "length (data (mean ?post)) = b * k"
    and cv: "shape (covariance_matrix ?post) = [b, k, k]"
    and be: "shape (beta self) = [] \<or> shape (beta self) = [Suc 0] \<or> shape (beta self) = [b]"
            "length (data (beta self)) = numel (shape (beta self))"
    by (simp_all add: analytic_inputs_def)
  have be': "shape ?be = [] \<or> shape ?be = [Suc 0] \<or> shape ?be = [b]"
            "length (data ?be) = numel (shape ?be)"
    using be by (simp_all add: tensor_to_def)
  have bs: "take (length (shape X) - 2) (shape X) = [b]" using X by simp
  have 1: "scalarized_mean ?w ?post = Inr ?sm"
    by (rule scalarized_mean_eq[OF w mu])
  have 2: "scalarized_variance env ?w [b] ?post = Inr ?sv"
    by (rule scalarized_variance_eq[OF w cv tb])
  have 3: "delta ?be ?sm ?sv = Inr ?d"
    using delta_eq[of ?sm b ?sv ?be] be' by simp
  have 5: "binop f ?sm ?d =
      Inr \<lparr>dtype = dtype (mean ?post), device = device (mean ?post), shape = [b],
           data = map (\<lambda>t. f (?m t) (tsqrt (beta_of ?be t * ?v t))) [0..<b]\<rparr>" for f :: "real \<Rightarrow> tnum \<Rightarrow> tnum"
    using binop_same[of ?sm b ?d f]
    by (simp add: map2_upt)
  show ?thesis
    unfolding forward_def Let_def
    using bs 1 2 3 5
    by (simp add: ebind_def analytic_score_def Let_def)
qed

lemma mc_ucb_flat:
  assumes len: "length W = k" "length M = b * q * k" "length D = n * b * q * k"
    and idx: "i < n" "t < b" "j < q"
    and M: "data (mean post) = M" and D: "data S = D"
  shows "dot (row k M (((i * b + t) * q + j) mod (b * q))) W
           + c * \<bar>dot (row k D ((i * b + t) * q + j)) W
                    - dot (row k M (((i * b + t) * q + j) mod (b * q))) W\<bar>
       = smean W post q t j + c * \<bar>ssample W S b q i t j - smean W post q t j\<bar>"
proof -
  have 1: "((i * b + t) * q + j) mod (b * q) = t * q + j"
    using idx by (simp add: flat_index_mod)
  have 2: "dot (row k M (t * q + j)) W = smean W post q t j"
    using dot_row_wdot[OF len(2) flat_index_lt(3)[OF idx] len(1)] len(1) M
    by (simp add: smean_def)
  have 3: "dot (row k D ((i * b + t) * q + j)) W = ssample W S b q i t j"
    using dot_row_wdot[OF len(3) flat_index_lt(1)[OF idx] len(1)] len(1) D
    by (simp add: ssample_def)
  show ?thesis by (simp only: 1 2 3)
qed

lemma q_forward_returned:
  assumes "mc_inputs self X n b q k" and mb: "''math'' \<in> names env"
  shows "returned (q_forward env self X) =
     Inr \<lparr>dtype = dtype (mean (posterior (qmodel self) X)),
          device = device (mean (posterior (qmodel self) X)),
          shape = [b],
          data = map (\<lambda>t. Fin (mc_score (data (qweights self)) (hd (data (qbeta self)))
                                   (posterior (qmodel self) X)
                                   (qsampler self (posterior (qmodel self) X)) n b q t)) [0..<b]\<rparr>"
proof -
  let ?post = "posterior (qmodel self) X"
  let ?S = "qsampler self ?post"
  let ?w = "qweights self"
  let ?W = "data ?w"
  let ?M = "data (mean ?post)"
  let ?D = "data ?S"
  let ?be = "hd (data (qbeta self))"
  let ?c = "sqrt (?be * pi / 2)"
  let ?ssd = "\<lambda>r. dot (row k ?D r) ?W"
  let ?smd = "\<lambda>r. dot (row k ?M r) ?W"
  let ?u = "\<lambda>idx. ?smd (idx mod (b * q)) + ?c * \<bar>?ssd idx - ?smd (idx mod (b * q))\<bar>"
  let ?SS = "?S\<lparr>shape := [n, b, q], data := map ?ssd [0..<n * b * q]\<rparr>"
  let ?SM = "(mean ?post)\<lparr>shape := [b, q], data := map ?smd [0..<b * q]\<rparr>"
  let ?DIFF = "\<lparr>dtype = dtype ?S, device = device ?S, shape = [n, b, q],
       data = map2 (-) (map ?ssd [0..<n * b * q]) (concat (replicate n (map ?smd [0..<b * q])))\<rparr>"
  let ?UCB = "\<lparr>dtype = dtype (mean ?post), device = device (mean ?post), shape = [n, b, q],
       data = map ?u [0..<n * b * q]\<rparr>"
  let ?B = "map (\<lambda>r. maximum (map (\<lambda>j. ?u (r * q + j)) [0..<q])) [0..<n * b]"
  let ?BEST = "?UCB\<lparr>shape := [n, b], data := ?B\<rparr>"
  from assms(1) have w: "shape ?w = [k]" "length ?W = k"
    and mu: "shape (mean ?post) = [b, q, k]" "length ?M = b * q * k"
    and sa: "shape ?S = [n, b, q, k]" "length ?D = n * b * q * k"
    and be: "numel (shape (qbeta self)) = 1" "length (data (qbeta self)) = 1" "0 \<le> ?be"
    and pos: "0 < n" "0 < q"
    by (simp_all add: mc_inputs_def)
  have 1: "matmul ?S ?w = Inr ?SS"
    using matmul_rows_gen[of ?S "[n, b, q]" k ?w] sa(1) w(1)
    by (simp add: numel_def mult.assoc)
  have 2: "matmul (mean ?post) ?w = Inr ?SM"
    using matmul_rows_gen[of "mean ?post" "[b, q]" k ?w] mu(1) w(1)
    by (simp add: numel_def)
  have 3: "math_sqrt (tensor_div (tensor_mul (qbeta self) pi) 2) = Inr ?c"
    by (rule math_sqrt_beta[OF be])
  have 4: "binop (-) ?SS ?SM = Inr ?DIFF"
    using binop_sub_bcast[of ?SS n b q ?SM "(-)"] by simp
  have len_rep: "length (concat (replicate n (map ?smd [0..<b * q]))) = n * b * q"
    by (simp add: length_concat_replicate mult.assoc)
  have U: "map2 (+) (concat (replicate n (map ?smd [0..<b * q])))
             (map (\<lambda>x. ?c * x) (map abs
                (map2 (-) (map ?ssd [0..<n * b * q]) (concat (replicate n (map ?smd [0..<b * q]))))))
         = map ?u [0..<n * b * q]"
  proof (intro nth_equalityI)
    show "length (map2 (+) (concat (replicate n (map ?smd [0..<b * q])))
             (map (\<lambda>x. ?c * x) (map abs
                (map2 (-) (map ?ssd [0..<n * b * q]) (concat (replicate n (map ?smd [0..<b * q])))))))
        = length (map ?u [0..<n * b * q])"
      using len_rep by simp
  next
    fix idx
    assume "idx < length (map2 (+) (concat (replicate n (map ?smd [0..<b * q])))
             (map (\<lambda>x. ?c * x) (map abs
                (map2 (-) (map ?ssd [0..<n * b * q]) (concat (replicate n (map ?smd [0..<b * q])))))))"
    then have lt: "idx < n * b * q" using len_rep by simp
    then have lt': "idx < n * length (map ?smd [0..<b * q])" by (simp add: mult.assoc)
    have pos': "0 < b * q" using lt by (cases "b * q") auto
    have r: "concat (replicate n (map ?smd [0..<b * q])) ! idx = ?smd (idx mod (b * q))"
      using concat_replicate_nth[OF lt'] pos' by simp
    show "map2 (+) (concat (replicate n (map ?smd [0..<b * q])))
             (map (\<lambda>x. ?c * x) (map abs
                (map2 (-) (map ?ssd [0..<n * b * q]) (concat (replicate n (map ?smd [0..<b * q])))))) ! idx
        = map ?u [0..<n * b * q] ! idx"
      using lt len_rep r by simp
  qed
  have 5: "binop (+) ?SM (tensor_rmul ?c (tensor_abs ?DIFF)) = Inr ?UCB"
    using binop_add_bcast[of ?SM b q "tensor_rmul ?c (tensor_abs ?DIFF)" n "(+)"] len_rep U
    by (simp add: tensor_rmul_def tensor_abs_def)
  have 6: "max_last ?UCB = Inr ?BEST"
  proof -
    have "\<And>r. r < n * b \<Longrightarrow> row q (map ?u [0..<n * b * q]) r = map (\<lambda>j. ?u (r * q + j)) [0..<q]"
      by (rule row_map_upt)
    then have "map (\<lambda>r. maximum (row q (map ?u [0..<n * b * q]) r)) [0..<n * b] = ?B"
      by simp
    then show ?thesis using max_last_3[of ?UCB n b q] pos(2) by simp
  qed
  have 7: "mean_dim0 ?BEST = \<lparr>dtype = dtype (mean ?post), device = device (mean ?post), shape = [b],
      data = map (\<lambda>t. Fin ((\<Sum>i\<leftarrow>[0..<n]. ?B ! (i * b + t)) / real n)) [0..<b]\<rparr>"
    using mean_dim0_2[of ?BEST n b] pos(1) by simp
  have 8: "(\<Sum>i\<leftarrow>[0..<n]. ?B ! (i * b + t)) / real n = mc_score ?W ?be ?post ?S n b q t"
    if t: "t < b" for t
  proof -
    have "?B ! (i * b + t) = Max ((\<lambda>j. mc_ucb ?W ?be ?post ?S b q i t j) ` {..<q})" if i: "i < n" for i
    proof -
      have lt: "i * b + t < n * b" by (rule flat_index_lt(2)[OF i t pos(2)])
      have ne: "map (\<lambda>j. ?u ((i * b + t) * q + j)) [0..<q] \<noteq> []" using pos(2) by simp
      have "?B ! (i * b + t) = maximum (map (\<lambda>j. ?u ((i * b + t) * q + j)) [0..<q])"
        using lt by simp
      also have "\<dots> = Max (set (map (\<lambda>j. ?u ((i * b + t) * q + j)) [0..<q]))"
        using ne by (rule maximum_Max)
      also have "\<dots> = Max ((\<lambda>j. ?u ((i * b + t) * q + j)) ` {..<q})"
        by (simp add: atLeast0LessThan)
      also have "(\<lambda>j. ?u ((i * b + t) * q + j)) ` {..<q} = (\<lambda>j. mc_ucb ?W ?be ?post ?S b q i t j) ` {..<q}"
      proof (rule image_cong)
        fix j assume "j \<in> {..<q}"
        then have j: "j < q" by simp
        show "?u ((i * b + t) * q + j) = mc_ucb ?W ?be ?post ?S b q i t j"
          unfolding mc_ucb_def
          by (rule mc_ucb_flat[OF w(2) mu(2) sa(2) i t j refl refl])
      qed simp
      finally show ?thesis .
    qed
    then have "(\<Sum>i\<leftarrow>[0..<n]. ?B ! (i * b + t)) = (\<Sum>i<n. Max ((\<lambda>j. mc_ucb ?W ?be ?post ?S b q i t j) ` {..<q}))"
      by (simp add: sum_list_upt)
    then show ?thesis by (simp add: mc_score_def)
  qed
  have 9: "map (\<lambda>t. Fin ((\<Sum>i\<leftarrow>[0..<n]. ?B ! (i * b + t)) / real n)) [0..<b]
      = map (\<lambda>t. Fin (mc_score ?W ?be ?post ?S n b q t)) [0..<b]"
    using 8 by simp
  show ?thesis
    unfolding q_forward_def Let_def
    using 1 2 3 4 5 6 7 9 mb
    by (simp add: ebind_def lookup_def)
qed

section \<open>The claims\<close>

text \<open>
  C1 says that for every t-batch the analytic scorer returns
  \<open>w \<cdot> mean + sqrt (beta * w\<^sup>T cov w)\<close> when \<open>maximize\<close> is true and
  \<open>w \<cdot> mean - sqrt (beta * w\<^sup>T cov w)\<close> when it is false. In the notebook as written the
  call returns nothing: on every well-shaped input it raises NameError at line 136, after
  the posterior has been evaluated.
\<close>

theorem analytic_forward_raises_NameError:
  assumes "analytic_inputs self X b d k"
  shows "returned (forward (notebook c) self X) = Inl NameError
       \<and> calls (forward (notebook c) self X) = [Call_posterior]"
  using forward_unbound[OF assms torch_unbound] by (simp add: forward_def Let_def)

theorem analytic_forward_raises_witness:
  "analytic_inputs (example_scorer\<lparr>maximize := False\<rparr>) example_X 1 1 2
   \<and> returned (forward (notebook exact) (example_scorer\<lparr>maximize := False\<rparr>) example_X)
       = Inl NameError
   \<and> calls (forward (notebook exact) (example_scorer\<lparr>maximize := False\<rparr>) example_X)
       = [Call_posterior]"
proof -
  have h: "analytic_inputs (example_scorer\<lparr>maximize := False\<rparr>) example_X 1 1 2"
    by (simp add: analytic_inputs_def example_defs numel_def)
  show ?thesis using analytic_forward_raises_NameError[OF h, of exact] h by simp
qed

text \<open>
  C2 says that the Monte-Carlo scorer returns, per t-batch, the mean over the draws of
  the maximum over the points of
  \<open>scalarized_mean + sqrt (beta * pi / 2) * |scalarized_samples - scalarized_mean|\<close>. In
  the notebook as written the call returns nothing: on every well-shaped input it raises
  NameError at line 71, after the posterior has been evaluated and the samples drawn.
\<close>

theorem mc_forward_raises_NameError:
  assumes "mc_inputs self X n b q k"
  shows "returned (q_forward (notebook c) self X) = Inl NameError
       \<and> calls (q_forward (notebook c) self X) = [Call_posterior, Call_sampler]"
  using q_forward_unbound[OF assms math_unbound] by (simp add: q_forward_def Let_def)

theorem mc_forward_raises_witness:
  "mc_inputs (example_q_scorer 2) example_q_X 2 1 2 2
   \<and> returned (q_forward (notebook exact) (example_q_scorer 2) example_q_X) = Inl NameError
   \<and> calls (q_forward (notebook exact) (example_q_scorer 2) example_q_X)
       = [Call_posterior, Call_sampler]"
proof -
  have h: "mc_inputs (example_q_scorer 2) example_q_X 2 1 2 2"
    by (rule example_q_inputs) simp
  show ?thesis using mc_forward_raises_NameError[OF h, of exact] h by simp
qed




text \<open>
  C4 says that a weight vector whose length differs from the number of outcomes makes
  the scorer fail before any computation, in particular before the posterior is
  evaluated. Neither scorer checks the length: the posterior has been evaluated (and the
  sampler has drawn) when the scalarization raises.
\<close>

theorem fail_fast_counterexample:
  "returned (forward (notebook exact) mismatch_scorer example_X) = Inl RuntimeError
   \<and> calls (forward (notebook exact) mismatch_scorer example_X) = [Call_posterior]
   \<and> returned (q_forward (notebook exact) mismatch_q_scorer example_q_X) = Inl RuntimeError
   \<and> calls (q_forward (notebook exact) mismatch_q_scorer example_q_X)
       = [Call_posterior, Call_sampler]"
  by (simp add: forward_def q_forward_def Let_def ebind_def scalarized_mean_def squeeze_def
      matmul_def example_defs more_defs)

text \<open>
  C4, as the code has it: for every input whose number of outcomes differs from the
  length of the stored weight vector, each scorer raises the RuntimeError of its first
  scalarization (\<^verbatim>\<open>means.matmul(self.weights)\<close>, \<^verbatim>\<open>samples.matmul(self.weights)\<close>) and
  returns no score; before that the analytic scorer has evaluated the posterior, and the
  Monte-Carlo scorer has evaluated the posterior and drawn the samples.
\<close>

theorem dimension_mismatch_raises_at_matmul:
  assumes "shape (weights a) = [k']"
    and "shape (mean (posterior (model a) X)) = [b, 1, k]"
    and "k \<noteq> k'"
    and "shape (qweights m) = [j']"
    and "shape (qsampler m (posterior (qmodel m) Y)) = [n, c, q, j]"
    and "j \<noteq> j'"
  shows "returned (forward env a X) = Inl RuntimeError
       \<and> calls (forward env a X) = [Call_posterior]
       \<and> returned (q_forward env m Y) = Inl RuntimeError
       \<and> calls (q_forward env m Y) = [Call_posterior, Call_sampler]"
proof -
  have "scalarized_mean (weights a) (posterior (model a) X) = Inl RuntimeError"
    using assms(1,2,3)
    by (simp add: scalarized_mean_def ebind_def squeeze_mean matmul_def)
  then have 1: "returned (forward env a X) = Inl RuntimeError"
    by (simp add: forward_def Let_def ebind_def)
  have "matmul (qsampler m (posterior (qmodel m) Y)) (qweights m) = Inl RuntimeError"
    using assms(4,5,6) by (simp add: matmul_def)
  then have 2: "returned (q_forward env m Y) = Inl RuntimeError"
    by (simp add: q_forward_def Let_def ebind_def)
  show ?thesis using 1 2 by (simp add: forward_def q_forward_def Let_def)
qed

theorem dimension_mismatch_witness:
  "shape (weights mismatch_scorer) = [3]
   \<and> shape (mean (posterior (model mismatch_scorer) example_X)) = [1, 1, 2]
   \<and> (2::nat) \<noteq> 3
   \<and> shape (qweights mismatch_q_scorer) = [3]
   \<and> shape (qsampler mismatch_q_scorer (posterior (qmodel mismatch_q_scorer) example_q_X)) = [2, 1, 2, 2]
   \<and> returned (forward (notebook exact) mismatch_scorer example_X) = Inl RuntimeError
   \<and> calls (forward (notebook exact) mismatch_scorer example_X) = [Call_posterior]
   \<and> returned (q_forward (notebook exact) mismatch_q_scorer example_q_X) = Inl RuntimeError
   \<and> calls (q_forward (notebook exact) mismatch_q_scorer example_q_X)
       = [Call_posterior, Call_sampler]"
proof -
  have h1: "shape (weights mismatch_scorer) = [3]" by (simp add: more_defs)
  have h2: "shape (mean (posterior (model mismatch_scorer) example_X)) = [1, 1, 2]"
    by (simp add: more_defs example_defs)
  have h3: "(2::nat) \<noteq> 3" by simp
  have h4: "shape (qweights mismatch_q_scorer) = [3]" by (simp add: more_defs)
  have h5: "shape (qsampler mismatch_q_scorer (posterior (qmodel mismatch_q_scorer) example_q_X))
      = [2, 1, 2, 2]"
    by (simp add: more_defs example_defs)
  show ?thesis
    using dimension_mismatch_raises_at_matmul[OF h1 h2 h3 h4 h5 h3, of "notebook exact"]
      h1 h2 h4 h5 by simp
qed

text \<open>
  C5 says that the stored state of the analytic scorer is the same after every call.
  Line 125 assigns to \<^verbatim>\<open>self.beta\<close>: a beta buffer in double precision is in single
  precision after a call on a candidate tensor in single precision.
\<close>

theorem no_side_effect_counterexample:
  "dtype (beta double_scorer) = Float64
   \<and> dtype (beta (state (forward (notebook exact) double_scorer example_X))) = Float32
   \<and> state (forward (notebook exact) double_scorer example_X) \<noteq> double_scorer"
proof -
  have 1: "dtype (beta double_scorer) = Float64" by (simp add: more_defs)
  have 2: "dtype (beta (state (forward (notebook exact) double_scorer example_X))) = Float32"
    by (simp add: forward_def Let_def tensor_to_def example_defs)
  have "state (forward (notebook exact) double_scorer example_X) \<noteq> double_scorer"
  proof
    assume "state (forward (notebook exact) double_scorer example_X) = double_scorer"
    then have "dtype (beta (state (forward (notebook exact) double_scorer example_X)))
        = dtype (beta double_scorer)"
      by simp
    then show False using 1 2 by simp
  qed
  then show ?thesis using 1 2 by simp
qed

text \<open>
  C5, as the code has it: a call has one side effect on the instance, the assignment of
  line 125, which replaces the beta buffer by \<^verbatim>\<open>self.beta.to(X)\<close>, of the same shape and
  with the dtype and device of \<open>X\<close>; the model, the flag and the weights buffer are as
  before, and the stored state as a whole is unchanged exactly when the beta buffer
  already has the dtype and device of \<open>X\<close>. The result depends only on the inputs and
  the stored parameters: an instance with the same weights, beta and flag whose model
  has the same posterior for \<open>X\<close> gives the same result.
\<close>

theorem forward_state_change:
  assumes "weights other = weights self" and "beta other = beta self"
    and "maximize other = maximize self"
    and "posterior (model other) X = posterior (model self) X"
  shows "model (state (forward env self X)) = model self
   \<and> maximize (state (forward env self X)) = maximize self
   \<and> weights (state (forward env self X)) = weights self
   \<and> beta (state (forward env self X)) = tensor_to (convert env) (beta self) X
   \<and> shape (beta (state (forward env self X))) = shape (beta self)
   \<and> dtype (beta (state (forward env self X))) = dtype X
   \<and> device (beta (state (forward env self X))) = device X
   \<and> (state (forward env self X) = self)
       = (dtype (beta self) = dtype X \<and> device (beta self) = device X)
   \<and> returned (forward env other X) = returned (forward env self X)"
proof -
  have 1: "state (forward env self X) = self\<lparr>beta := tensor_to (convert env) (beta self) X\<rparr>"
    by (simp add: forward_def Let_def)
  have 2: "(self\<lparr>beta := tensor_to (convert env) (beta self) X\<rparr> = self)
      = (dtype (beta self) = dtype X \<and> device (beta self) = device X)"
  proof
    assume "self\<lparr>beta := tensor_to (convert env) (beta self) X\<rparr> = self"
    then have "beta (self\<lparr>beta := tensor_to (convert env) (beta self) X\<rparr>) = beta self"
      by simp
    then have "tensor_to (convert env) (beta self) X = beta self" by simp
    then show "dtype (beta self) = dtype X \<and> device (beta self) = device X"
      by (simp add: tensor_to_same)
  next
    assume "dtype (beta self) = dtype X \<and> device (beta self) = device X"
    then have "tensor_to (convert env) (beta self) X = beta self"
      by (simp add: tensor_to_same)
    then show "self\<lparr>beta := tensor_to (convert env) (beta self) X\<rparr> = self" by simp
  qed
  have 3: "returned (forward env other X) = returned (forward env self X)"
    using assms by (simp add: forward_def Let_def)
  show ?thesis using 2 3 unfolding 1 by (simp add: tensor_to_def)
qed

theorem forward_state_change_witness:
  "weights other_model_scorer = weights example_scorer
   \<and> beta other_model_scorer = beta example_scorer
   \<and> maximize other_model_scorer = maximize example_scorer
   \<and> posterior (model other_model_scorer) example_X = posterior (model example_scorer) example_X
   \<and> posterior (model other_model_scorer) example_q_X \<noteq> posterior (model example_scorer) example_q_X
   \<and> state (forward (notebook exact) example_scorer example_X) = example_scorer
   \<and> returned (forward (notebook exact) other_model_scorer example_X)
       = returned (forward (notebook exact) example_scorer example_X)"
proof -
  have h1: "weights other_model_scorer = weights example_scorer"
    and h2: "beta other_model_scorer = beta example_scorer"
    and h3: "maximize other_model_scorer = maximize example_scorer"
    and h4: "posterior (model other_model_scorer) example_X
      = posterior (model example_scorer) example_X"
    by (simp_all add: more_defs example_scorer_def)
  have ne: "posterior (model other_model_scorer) example_q_X
      \<noteq> posterior (model example_scorer) example_q_X"
    by (simp add: more_defs example_defs)
  have same: "dtype (beta example_scorer) = dtype example_X
      \<and> device (beta example_scorer) = device example_X"
    by (simp add: example_defs)
  show ?thesis
    using forward_state_change[OF h1 h2 h3 h4, of "notebook exact"] h1 h2 h3 h4 ne same by simp
qed

text \<open>
  C6 says that with beta 0 the analytic score is exactly the scalarized posterior mean,
  in both modes. In the notebook as written a call with beta 0 raises NameError at line
  136 in both modes and returns no score.
\<close>

theorem beta_zero_raises_NameError:
  "beta_of (beta (example_scorer\<lparr>beta := (beta example_scorer)\<lparr>data := [0]\<rparr>\<rparr>)) 0 = 0
   \<and> returned (forward (notebook c)
         (example_scorer\<lparr>beta := (beta example_scorer)\<lparr>data := [0]\<rparr>\<rparr>) example_X) = Inl NameError
   \<and> returned (forward (notebook c)
         (example_scorer\<lparr>maximize := False, beta := (beta example_scorer)\<lparr>data := [0]\<rparr>\<rparr>) example_X)
       = Inl NameError"
proof -
  let ?s = "example_scorer\<lparr>beta := (beta example_scorer)\<lparr>data := [0]\<rparr>\<rparr>"
  let ?m = "example_scorer\<lparr>maximize := False, beta := (beta example_scorer)\<lparr>data := [0]\<rparr>\<rparr>"
  have h1: "analytic_inputs ?s example_X 1 1 2"
    by (simp add: analytic_inputs_def example_defs numel_def)
  have h2: "analytic_inputs ?m example_X 1 1 2"
    by (simp add: analytic_inputs_def example_defs numel_def)
  have z: "beta_of (beta ?s) 0 = 0" by (simp add: example_defs spec_defs)
  show ?thesis
    using forward_unbound[OF h1 torch_unbound, of c] forward_unbound[OF h2 torch_unbound, of c] z
    by simp
qed

text \<open>
  C7 says that, the posterior and the weights fixed, the maximize-mode score does not
  decrease and the minimize-mode score does not increase when beta grows. In the
  notebook as written the calls with beta 1 and with beta 4 both raise NameError at line
  136: there are no two scores to compare.
\<close>

theorem two_betas_raise_NameError:
  "returned (forward (notebook c)
      (example_scorer\<lparr>beta := (beta example_scorer)\<lparr>data := [1]\<rparr>\<rparr>) example_X) = Inl NameError
   \<and> returned (forward (notebook c) example_scorer example_X) = Inl NameError"
proof -
  let ?s = "example_scorer\<lparr>beta := (beta example_scorer)\<lparr>data := [1]\<rparr>\<rparr>"
  have h1: "analytic_inputs ?s example_X 1 1 2"
    by (simp add: analytic_inputs_def example_defs numel_def)
  show ?thesis
    using forward_unbound[OF h1 torch_unbound, of c]
      forward_unbound[OF example_inputs torch_unbound, of c]
    by simp
qed

text \<open>
  C8 says that with a one-hot weight vector \<open>e\<^sub>i\<close> the maximize-mode score is
  \<open>mean\<^sub>i + sqrt beta * sqrt cov\<^sub>i\<^sub>i\<close>. In the notebook as written the call with the
  weights \<open>[1, 0]\<close> raises NameError at line 136 and returns no score.
\<close>

theorem one_hot_raises_NameError:
  "data (weights (example_scorer\<lparr>weights := (weights example_scorer)\<lparr>data := one_hot 2 0\<rparr>\<rparr>))
     = [1, 0]
   \<and> returned (forward (notebook c)
         (example_scorer\<lparr>weights := (weights example_scorer)\<lparr>data := one_hot 2 0\<rparr>\<rparr>) example_X)
       = Inl NameError"
proof -
  let ?s = "example_scorer\<lparr>weights := (weights example_scorer)\<lparr>data := one_hot 2 0\<rparr>\<rparr>"
  have h1: "analytic_inputs ?s example_X 1 1 2"
    by (simp add: analytic_inputs_def example_defs numel_def one_hot_def)
  have "one_hot 2 0 = [1, 0]" by (simp add: one_hot_def numeral_2_eq_2)
  then show ?thesis using forward_unbound[OF h1 torch_unbound, of c] by simp
qed

text \<open>
  C9 says that on two outcomes, weights \<open>[0.5, 0.5]\<close>, mean \<open>[1, 3]\<close>, covariance
  \<open>diag(4, 1)\<close>, beta 4 and maximize the scorer returns \<open>2 + sqrt 5\<close>. In the notebook as
  written the call computes the scalarized mean 2 (line 129) and raises NameError at
  line 136: neither the scalarized variance nor a score is computed.
\<close>

theorem concrete_scenario_raises_NameError:
  "scalarized_mean (weights example_scorer) example_posterior
     = Inr \<lparr>dtype = Float32, device = CPU, shape = [1], data = [2]\<rparr>
   \<and> returned (forward (notebook c) example_scorer example_X) = Inl NameError"
proof -
  have w: "shape (weights example_scorer) = [2]" "length (data (weights example_scorer)) = 2"
       "data (weights example_scorer) = [1 / 2, 1 / 2]"
    by (simp_all add: example_scorer_def)
  have mu: "shape (mean example_posterior) = [1, Suc 0, 2]" "length (data (mean example_posterior)) = 1 * 2"
    by (simp_all add: example_posterior_def)
  have v: "wdot [1 / 2, 1 / 2] (mean_of example_posterior 2 0) = 2"
    by (simp add: wdot_def mean_of_def row_def example_posterior_def)
  have 1: "scalarized_mean (weights example_scorer) example_posterior
     = Inr \<lparr>dtype = Float32, device = CPU, shape = [1], data = [2]\<rparr>"
    using scalarized_mean_eq[OF w(1,2) mu] v w(3)
    by (simp add: example_posterior_def)
  show ?thesis using 1 forward_unbound[OF example_inputs torch_unbound, of c] by simp
qed

text \<open>
  C10 says that the Monte-Carlo score of a t-batch is at least the best scalarized mean
  of the t-batch, and equal to it when beta is 0. In the notebook as written the call
  with beta 0 raises NameError at line 71 and returns no score.
\<close>

theorem mc_beta_zero_raises_NameError:
  "hd (data (qbeta (example_q_scorer 0))) = 0
   \<and> returned (q_forward (notebook c) (example_q_scorer 0) example_q_X) = Inl NameError"
proof -
  have h: "mc_inputs (example_q_scorer 0) example_q_X 2 1 2 2"
    by (rule example_q_inputs) simp
  show ?thesis using q_forward_unbound[OF h math_unbound, of c] by (simp add: example_defs)
qed

end
